theory Spec2Isabelle
  imports Complex_Main
begin

section \<open>JavaScript strings\<close>

text \<open>
  Strings are lists of characters. The paths, cookie values and query texts handled here
  are ASCII (a URL's pathname and search are percent-encoded by the URL parser), so the
  string functions are given on ASCII: \<open>toUpperCase\<close> maps the letters a-z and
  \<open>trim\<close> strips the ASCII white space.
\<close>

definition startsWith :: "string \<Rightarrow> string \<Rightarrow> bool" where
  "startsWith s p = (take (length p) s = p)"

definition upper_char :: "char \<Rightarrow> char" where
  "upper_char c =
     (case map_of (zip ''abcdefghijklmnopqrstuvwxyz'' ''ABCDEFGHIJKLMNOPQRSTUVWXYZ'') c of
        None \<Rightarrow> c | Some u \<Rightarrow> u)"

definition toUpperCase :: "string \<Rightarrow> string" where
  "toUpperCase s = map upper_char s"

definition is_space :: "char \<Rightarrow> bool" where
  "is_space c = (c \<in> set [CHR '' '', CHR 0x09, CHR 0x0A, CHR 0x0B, CHR 0x0C, CHR 0x0D])"

definition trim :: "string \<Rightarrow> string" where
  "trim s = rev (dropWhile is_space (rev (dropWhile is_space s)))"

definition alnum :: "char \<Rightarrow> bool" where
  "alnum c =
     (c \<in> set ''abcdefghijklmnopqrstuvwxyzABCDEFGHIJKLMNOPQRSTUVWXYZ0123456789'')"

definition hex_digit :: "nat \<Rightarrow> char" where
  "hex_digit n = ''0123456789ABCDEF'' ! (n mod 16)"

definition percent :: "char \<Rightarrow> string" where
  "percent c = [CHR ''%'', hex_digit (of_char c div 16), hex_digit (of_char c)]"

text \<open>\<open>encodeURIComponent\<close> keeps the letters, the digits and \<open>- _ . ! ~ * ' ( )\<close>.\<close>

definition encodeURIComponent :: "string \<Rightarrow> string" where
  "encodeURIComponent s =
     concat (map (\<lambda>c. if alnum c \<or> c \<in> set ''-_.!~*'' \<or> c \<in> set [CHR 0x27, CHR ''('', CHR '')'']
                       then [c] else percent c) s)"

text \<open>\<open>x || d\<close> on a possibly undefined string: the empty string is falsy.\<close>

definition or_else :: "string option \<Rightarrow> string \<Rightarrow> string" where
  "or_else x d = (case x of None \<Rightarrow> d | Some v \<Rightarrow> if v = [] then d else v)"

section \<open>The route guard (src/middleware.ts)\<close>

record NextUrl =
  pathname :: string
  origin :: string
  search :: string

record NextRequest =
  nextUrl :: NextUrl
  cookies :: "string \<rightharpoonup> string"

text \<open>
  \<open>new URL(input, base)\<close> is kept as the pair it was built from, with the search
  parameters that were set on it afterwards.
\<close>

record URL =
  input :: string
  base :: string
  searchParams :: "(string \<times> string) list"

datatype NextResponse = Next_response | Redirect URL

definition new_URL :: "string \<Rightarrow> string \<Rightarrow> URL" where
  "new_URL i b = \<lparr>input = i, base = b, searchParams = []\<rparr>"

fun params_set :: "(string \<times> string) list \<Rightarrow> string \<Rightarrow> string \<Rightarrow> (string \<times> string) list" where
  "params_set [] k v = [(k, v)]"
| "params_set ((k', v') # ps) k v =
     (if k' = k then (k, v) # filter (\<lambda>p. fst p \<noteq> k) ps else (k', v') # params_set ps k v)"

definition searchParams_set :: "URL \<Rightarrow> string \<Rightarrow> string \<Rightarrow> URL" where
  "searchParams_set u k v = u\<lparr>searchParams := params_set (searchParams u) k v\<rparr>"

definition ACCESS_TOKEN_COOKIE :: string where
  "ACCESS_TOKEN_COOKIE = ''access_token''"

definition ROLE_COOKIE :: string where
  "ROLE_COOKIE = ''role''"

definition dashboardGroupPrefixes :: "string list" where
  "dashboardGroupPrefixes = [''/dashboard'', ''/projects'', ''/worklogs'', ''/settings'']"

text \<open>
  The first argument is the environment variable \<open>NEXT_PUBLIC_NO_AUTH_REDIRECT\<close>
  (\<open>None\<close> when it is not set).
\<close>

definition middleware :: "string option \<Rightarrow> NextRequest \<Rightarrow> NextResponse" where
  "middleware env req =
     (let pathname = pathname (nextUrl req);
          origin = origin (nextUrl req);
          search = search (nextUrl req);
          isDashboard = list_ex (\<lambda>p. startsWith pathname p) dashboardGroupPrefixes;
          isAdmin = startsWith pathname ''/admin''
      in if \<not> isDashboard \<and> \<not> isAdmin then Next_response
         else
           let token = or_else (cookies req ACCESS_TOKEN_COOKIE) '''';
               role = toUpperCase (or_else (cookies req ROLE_COOKIE) '''');
               loginPath = or_else env ''/login''
           in if token = [] then
                Redirect (searchParams_set (new_URL loginPath origin) ''d''
                            (encodeURIComponent (pathname @ or_else (Some search) '''')))
              else if isDashboard \<and> role \<noteq> ''USER'' then
                Redirect (new_URL (if role = ''ADMIN'' then ''/admin'' else loginPath) origin)
              else if isAdmin \<and> role \<noteq> ''ADMIN'' then
                Redirect (new_URL (if role = ''USER'' then ''/dashboard'' else loginPath) origin)
              else Next_response)"

text \<open>The guarded prefixes, as the specification lists them.\<close>

definition in_dashboard_group :: "string \<Rightarrow> bool" where
  "in_dashboard_group p =
     (startsWith p ''/dashboard'' \<or> startsWith p ''/projects'' \<or>
      startsWith p ''/worklogs'' \<or> startsWith p ''/settings'')"

section \<open>Numbers and JSON values\<close>

text \<open>
  The numbers met here are counts and page sizes: integers, and the two values that a
  division by zero produces. A field read from a JSON body is a number, nullish
  (\<open>undefined\<close> or \<open>null\<close>), or some other value kept as its text.
\<close>

datatype jsnum = Number int | PosInfinity | NegInfinity | NaN

datatype jsval = Num jsnum | Nullish | Other string

fun Math_max :: "jsnum \<Rightarrow> jsnum \<Rightarrow> jsnum" where
  "Math_max NaN _ = NaN"
| "Math_max _ NaN = NaN"
| "Math_max PosInfinity _ = PosInfinity"
| "Math_max _ PosInfinity = PosInfinity"
| "Math_max NegInfinity b = b"
| "Math_max a NegInfinity = a"
| "Math_max (Number a) (Number b) = Number (max a b)"

fun js_minus :: "jsnum \<Rightarrow> int \<Rightarrow> jsnum" where
  "js_minus (Number a) k = Number (a - k)"
| "js_minus x k = x"

text \<open>
  \<open>Math.ceil(a / b)\<close>. A division by zero gives an infinity, or NaN for 0 / 0; for
  integers \<open>a\<close> and \<open>b \<noteq> 0\<close> the ceiling of the quotient is \<open>- ((- a) div b)\<close>,
  with the flooring \<open>div\<close> of HOL.
\<close>

fun ceil_div :: "jsnum \<Rightarrow> jsnum \<Rightarrow> jsnum" where
  "ceil_div NaN _ = NaN"
| "ceil_div _ NaN = NaN"
| "ceil_div (Number a) (Number b) =
     (if b = 0 then (if a = 0 then NaN else if 0 < a then PosInfinity else NegInfinity)
      else Number (- ((- a) div b)))"
| "ceil_div (Number a) _ = Number 0"
| "ceil_div PosInfinity (Number b) = (if 0 \<le> b then PosInfinity else NegInfinity)"
| "ceil_div NegInfinity (Number b) = (if 0 \<le> b then NegInfinity else PosInfinity)"
| "ceil_div _ _ = NaN"

fun digits :: "nat \<Rightarrow> nat \<Rightarrow> string" where
  "digits 0 n = []"
| "digits (Suc fuel) n =
     (if n < 10 then [''0123456789'' ! n]
      else digits fuel (n div 10) @ [''0123456789'' ! (n mod 10)])"

text \<open>\<open>String(n)\<close> for an integer; a number below \<open>10 ^ k\<close> has at most \<open>k\<close> digits.\<close>

definition String_of :: "int \<Rightarrow> string" where
  "String_of i =
     (if i < 0 then CHR ''-'' # digits (Suc (nat (- i))) (nat (- i))
      else digits (Suc (nat i)) (nat i))"

section \<open>Responses of the REST API\<close>

text \<open>
  A JSON body, with the fields the hooks read; a missing field is \<open>None\<close>. The type
  parameter is the type of \<open>data\<close>.
\<close>

record Meta =
  page :: jsval
  limit :: jsval
  totalItems :: jsval
  totalPages :: jsval

record 'a ApiBody =
  success :: "bool option"
  message :: "string option"
  data :: "'a option"
  meta :: "Meta option"

record ProjectItem =
  project_id :: string
  title :: string
  description :: string
  techStack :: string
  project_status :: string
  project_createdAt :: string

record WorklogItem =
  worklog_id :: string
  logDate :: string
  activityType :: string
  summary :: string
  timeSpent :: int
  blockers :: string
  createdAt :: string
  projectId :: "string option"

type_synonym ProjectsResponse = "ProjectItem list ApiBody"
type_synonym WorklogsResponse = "WorklogItem list ApiBody"

text \<open>
  What \<open>res.json()\<close> gives: a syntax error, or the parsed value (\<open>None\<close> when it is
  not an object). \<open>isJson\<close> says that the content type includes application/json.
\<close>

datatype 'b json_result = SyntaxError | Parsed "'b option"

record 'b Response =
  status :: nat
  isJson :: bool
  json :: "'b json_result"

text \<open>
  A fetch rejects (network failure, or its signal was aborted) or resolves. A request is
  kept with its method, URL and headers, and the fields of the JSON object it sends
  (none for GET and DELETE).
\<close>

datatype 'b fetch_outcome = Rejected | Resolved "'b Response"

datatype thrown = FetchError | JsonError | Error string

record Request =
  http_method :: string
  url :: string
  headers :: "(string \<times> string) list"
  payload :: "(string \<times> string) list"

text \<open>\<open>res.ok\<close>\<close>

definition res_ok :: "'b Response \<Rightarrow> bool" where
  "res_ok r = (200 \<le> status r \<and> status r \<le> 299)"

text \<open>\<open>isJson ? await res.json() : null\<close>\<close>

definition read_body :: "'b Response \<Rightarrow> thrown + 'b option" where
  "read_body r =
     (if isJson r then (case json r of SyntaxError \<Rightarrow> Inl JsonError | Parsed b \<Rightarrow> Inr b)
      else Inr None)"

text \<open>\<open>body?.message\<close>\<close>

definition message_of :: "'a ApiBody option \<Rightarrow> string option" where
  "message_of body = (case body of None \<Rightarrow> None | Some b \<Rightarrow> message b)"

section \<open>fetchWithAuth (src/hooks/use-projects.ts, use-worklogs.ts, use-dashboard.ts)\<close>

text \<open>The request that \<open>fetchWithAuth(url, token, signal)\<close> sends.\<close>

definition fetchWithAuth_request :: "string \<Rightarrow> string \<Rightarrow> Request" where
  "fetchWithAuth_request u token =
     \<lparr>http_method = ''GET'', url = u, headers = [(''Authorization'', ''Bearer '' @ token)],
      payload = []\<rparr>"

text \<open>What it returns or throws, given the outcome of the fetch.\<close>

definition fetchWithAuth :: "'a ApiBody fetch_outcome \<Rightarrow> thrown + 'a ApiBody option" where
  "fetchWithAuth out =
     (case out of
        Rejected \<Rightarrow> Inl FetchError
      | Resolved res \<Rightarrow>
          (case read_body res of
             Inl e \<Rightarrow> Inl e
           | Inr body \<Rightarrow>
               if \<not> res_ok res then
                 Inl (Error (or_else (message_of body)
                                     (''Request failed: '' @ String_of (int (status res)))))
               else Inr body))"

section \<open>parseApiError (src/hooks/use-auth.ts)\<close>

record ApiErrorBody =
  err_message :: "string option"
  err_error :: "string option"
  statusCode :: "int option"

definition parseApiError :: "nat \<Rightarrow> 'z ApiErrorBody_scheme option \<Rightarrow> string" where
  "parseApiError st body =
     (case (case body of None \<Rightarrow> None | Some b \<Rightarrow> err_message b) of
        Some m \<Rightarrow>
          if m \<noteq> [] then m
          else if st = 0 then ''Tidak dapat terhubung ke server. Coba lagi.''
          else if st \<ge> 500 then ''Terjadi kesalahan pada server. Coba beberapa saat lagi.''
          else ''Email atau kata sandi salah.''
      | None \<Rightarrow>
          if st = 0 then ''Tidak dapat terhubung ke server. Coba lagi.''
          else if st \<ge> 500 then ''Terjadi kesalahan pada server. Coba beberapa saat lagi.''
          else ''Email atau kata sandi salah.'')"

section \<open>URLSearchParams\<close>

text \<open>
  \<open>toString\<close> is the application/x-www-form-urlencoded serialisation: a space becomes
  \<open>+\<close>, letters, digits and \<open>* - . _\<close> stay, every other byte is percent-encoded.
\<close>

definition form_encode :: "string \<Rightarrow> string" where
  "form_encode s =
     concat (map (\<lambda>c. if c = CHR '' '' then ''+''
                       else if alnum c \<or> c \<in> set ''*-._'' then [c] else percent c) s)"

fun join_amp :: "string list \<Rightarrow> string" where
  "join_amp [] = []"
| "join_amp [x] = x"
| "join_amp (x # y # ys) = x @ ''&'' @ join_amp (y # ys)"

definition params_toString :: "(string \<times> string) list \<Rightarrow> string" where
  "params_toString ps = join_amp (map (\<lambda>(k, v). form_encode k @ ''='' @ form_encode v) ps)"

text \<open>\<open>params.toString().length ? `${endpoint}?${params.toString()}` : endpoint\<close>\<close>

definition request_url :: "string \<Rightarrow> (string \<times> string) list \<Rightarrow> string" where
  "request_url endpoint params =
     (if length (params_toString params) \<noteq> 0 then endpoint @ ''?'' @ params_toString params
      else endpoint)"

section \<open>The state of a hook\<close>

text \<open>
  The three \<open>useState\<close> cells and the \<open>abortRef\<close>. An AbortController is known by a
  number; \<open>aborted\<close> holds the controllers whose signal is aborted and \<open>fresh\<close> is the
  next controller that \<open>new AbortController()\<close> makes.
\<close>

record 'd hook =
  loading :: bool
  error :: string
  data :: "'d option"
  abortRef :: "nat option"
  aborted :: "nat set"
  fresh :: nat

text \<open>\<open>abortRef.current?.abort()\<close>\<close>

definition abort_current :: "'d hook \<Rightarrow> 'd hook" where
  "abort_current s =
     (case abortRef s of None \<Rightarrow> s | Some c \<Rightarrow> s\<lparr>aborted := insert c (aborted s)\<rparr>)"

text \<open>\<open>const controller = new AbortController(); abortRef.current = controller\<close>\<close>

definition new_controller :: "'d hook \<Rightarrow> 'd hook \<times> nat" where
  "new_controller s = (s\<lparr>abortRef := Some (fresh s), fresh := Suc (fresh s)\<rparr>, fresh s)"

text \<open>
  \<open>API_HOST\<close> is an environment variable and the token is what \<open>getCookie\<close> returns
  for the access_token cookie: both may be missing, and both are falsy when empty.
\<close>

definition no_session :: "string option \<Rightarrow> string option \<Rightarrow> bool" where
  "no_session API_HOST token = (or_else API_HOST [] = [] \<or> or_else token [] = [])"

definition template :: "string option \<Rightarrow> string" where
  "template x = (case x of None \<Rightarrow> ''undefined'' | Some v \<Rightarrow> v)"

definition SESSION_INVALID :: string where
  "SESSION_INVALID = ''Sesi tidak valid. Silakan login kembali.''"

section \<open>Loading a list (useProjects.load, useWorklogs.load)\<close>

datatype ProjectStatusFilter = Filter_ALL | Filter_ACTIVE | Filter_ARCHIVED

fun status_text :: "ProjectStatusFilter \<Rightarrow> string" where
  "status_text Filter_ALL = ''ALL''"
| "status_text Filter_ACTIVE = ''ACTIVE''"
| "status_text Filter_ARCHIVED = ''ARCHIVED''"

record ProjectsQuery =
  query_search :: "string option"
  query_status :: "ProjectStatusFilter option"
  query_page :: "int option"
  query_limit :: "int option"

record WorklogsQuery =
  fromDate :: "string option"
  toDate :: "string option"
  query_activityType :: "string option"
  wquery_page :: "int option"
  wquery_limit :: "int option"

text \<open>A string is truthy when it is not empty, a number when it is not zero.\<close>

definition projects_params :: "ProjectsQuery \<Rightarrow> (string \<times> string) list" where
  "projects_params q =
     (let params = [];
          params = (case query_search q of
                      Some s \<Rightarrow> if s \<noteq> [] \<and> length (trim s) > 0
                                then params_set params ''search'' (trim s) else params
                    | None \<Rightarrow> params);
          params = (case query_status q of
                      Some st \<Rightarrow> if st \<noteq> Filter_ALL
                                 then params_set params ''status'' (status_text st) else params
                    | None \<Rightarrow> params);
          params = (case query_page q of
                      Some p \<Rightarrow> if p \<noteq> 0 \<and> p > 1
                                then params_set params ''page'' (String_of p) else params
                    | None \<Rightarrow> params);
          params = (case query_limit q of
                      Some l \<Rightarrow> if l \<noteq> 0 \<and> l \<noteq> 10
                                then params_set params ''limit'' (String_of l) else params
                    | None \<Rightarrow> params)
      in params)"

definition worklogs_params :: "WorklogsQuery \<Rightarrow> (string \<times> string) list" where
  "worklogs_params q =
     (let params = [];
          params = (case fromDate q of
                      Some d \<Rightarrow> if d \<noteq> [] then params_set params ''fromDate'' d else params
                    | None \<Rightarrow> params);
          params = (case toDate q of
                      Some d \<Rightarrow> if d \<noteq> [] then params_set params ''toDate'' d else params
                    | None \<Rightarrow> params);
          params = (case query_activityType q of
                      Some a \<Rightarrow> if a \<noteq> [] \<and> length (trim a) > 0
                                then params_set params ''activityType'' (trim a) else params
                    | None \<Rightarrow> params);
          params = (case wquery_page q of
                      Some p \<Rightarrow> if p \<noteq> 0 \<and> p > 1
                                then params_set params ''page'' (String_of p) else params
                    | None \<Rightarrow> params);
          params = (case wquery_limit q of
                      Some l \<Rightarrow> if l \<noteq> 0 \<and> l \<noteq> 10
                                then params_set params ''limit'' (String_of l) else params
                    | None \<Rightarrow> params)
      in params)"

definition projects_endpoint :: "string option \<Rightarrow> string" where
  "projects_endpoint API_HOST = template API_HOST @ ''/projects''"

definition baseEndpoint :: "string option \<Rightarrow> string option \<Rightarrow> string" where
  "baseEndpoint API_HOST pid =
     (if or_else pid [] = [] then []
      else template API_HOST @ ''/projects/'' @ encodeURIComponent (or_else pid [])
           @ ''/worklogs'')"

text \<open>
  \<open>load\<close> runs in two parts. The first runs when it is called, up to the fetch: it
  returns the new state and, when a request is sent, the controller of the request and
  the request. The second runs when the fetch has settled.
\<close>

definition useProjects_load_start ::
  "string option \<Rightarrow> string option \<Rightarrow> ProjectsQuery \<Rightarrow> 'd hook \<Rightarrow> 'd hook \<times> (nat \<times> Request) option" where
  "useProjects_load_start API_HOST token query s =
     (let s = s\<lparr>loading := True, error := []\<rparr>
      in if no_session API_HOST token then
           (s\<lparr>loading := False, error := SESSION_INVALID, data := None\<rparr>, None)
         else
           let (s, controller) = new_controller (abort_current s)
           in (s, Some (controller,
                 fetchWithAuth_request
                   (request_url (projects_endpoint API_HOST) (projects_params query))
                   (or_else token []))))"

definition useWorklogs_load_start ::
  "string option \<Rightarrow> string option \<Rightarrow> string option \<Rightarrow> WorklogsQuery \<Rightarrow> 'd hook
     \<Rightarrow> 'd hook \<times> (nat \<times> Request) option" where
  "useWorklogs_load_start API_HOST token pid query s =
     (if or_else pid [] = [] then
        (s\<lparr>loading := False, error := ''ID project tidak valid.'', data := None\<rparr>, None)
      else
        let s = s\<lparr>loading := True, error := []\<rparr>
        in if no_session API_HOST token then
             (s\<lparr>loading := False, error := SESSION_INVALID, data := None\<rparr>, None)
           else
             let (s, controller) = new_controller (abort_current s)
             in (s, Some (controller,
                   fetchWithAuth_request
                     (request_url (baseEndpoint API_HOST pid) (worklogs_params query))
                     (or_else token []))))"

text \<open>The \<open>finally\<close> block of \<open>load\<close>.\<close>

definition finally_loading :: "nat \<Rightarrow> 'd hook \<Rightarrow> 'd hook" where
  "finally_loading controller s =
     (if abortRef s = Some controller then s\<lparr>loading := False\<rparr> else s)"

text \<open>
  The part of \<open>load\<close> after the fetch, the same in both hooks but for the error text. A
  \<open>return\<close> inside \<open>catch\<close> still runs \<open>finally\<close>.
\<close>

definition list_load_finish ::
  "string \<Rightarrow> nat \<Rightarrow> 'a ApiBody fetch_outcome \<Rightarrow> 'a ApiBody hook \<Rightarrow> 'a ApiBody hook" where
  "list_load_finish failed controller out s =
     (case fetchWithAuth out of
        Inr resp \<Rightarrow>
          finally_loading controller
            (if abortRef s = Some controller then s\<lparr>data := resp\<rparr> else s)
      | Inl err \<Rightarrow>
          finally_loading controller
            (if controller \<in> aborted s \<or> abortRef s \<noteq> Some controller then s
             else s\<lparr>error := failed, data := None\<rparr>))"

definition useProjects_load_finish ::
  "nat \<Rightarrow> ProjectsResponse fetch_outcome \<Rightarrow> ProjectsResponse hook \<Rightarrow> ProjectsResponse hook" where
  "useProjects_load_finish = list_load_finish ''Gagal memuat projects. Coba lagi.''"

definition useWorklogs_load_finish ::
  "nat \<Rightarrow> WorklogsResponse fetch_outcome \<Rightarrow> WorklogsResponse hook \<Rightarrow> WorklogsResponse hook" where
  "useWorklogs_load_finish = list_load_finish ''Gagal memuat worklogs. Coba lagi.''"

section \<open>Deleting an item (useProjects.remove, useWorklogs.remove)\<close>

record RemoveResult =
  ok :: bool
  msg :: string

text \<open>The new \<open>meta\<close> of the held response after a delete.\<close>

definition nextMeta :: "Meta \<Rightarrow> Meta" where
  "nextMeta m =
     m\<lparr>totalItems :=
         (case totalItems m of
            Num t \<Rightarrow> Num (Math_max (Number 0) (js_minus t 1))
          | v \<Rightarrow> v),
       totalPages :=
         (case (totalItems m, limit m) of
            (Num t, Num l) \<Rightarrow>
              Num (Math_max (Number 1) (ceil_div (Math_max (Number 0) (js_minus t 1)) l))
          | _ \<Rightarrow> totalPages m)\<rparr>"

text \<open>
  The function given to \<open>setData\<close> after a successful delete; \<open>ident\<close> reads the id of
  an item.
\<close>

definition optimistic :: "('a \<Rightarrow> string) \<Rightarrow> string \<Rightarrow> 'a list ApiBody option \<Rightarrow> 'a list ApiBody option" where
  "optimistic ident x prev =
     (case prev of
        None \<Rightarrow> None
      | Some p \<Rightarrow>
          Some (p\<lparr>ApiBody.data :=
                     Some (filter (\<lambda>it. ident it \<noteq> x)
                             (case ApiBody.data p of None \<Rightarrow> [] | Some xs \<Rightarrow> xs)),
                   meta := (case meta p of None \<Rightarrow> None | Some m \<Rightarrow> Some (nextMeta m))\<rparr>))"

definition delete_request :: "string \<Rightarrow> string \<Rightarrow> Request" where
  "delete_request u token =
     \<lparr>http_method = ''DELETE'', url = u, headers = [(''Authorization'', ''Bearer '' @ token)],
      payload = []\<rparr>"

text \<open>\<open>body && body.success === false\<close>\<close>

definition reports_failure :: "'b ApiBody option \<Rightarrow> bool" where
  "reports_failure b = (case b of None \<Rightarrow> False | Some r \<Rightarrow> success r = Some False)"

text \<open>
  The part of \<open>remove\<close> from the fetch on: the state, the result, given the outcome of
  the DELETE. \<open>what\<close> is the word project or worklog of the messages.
\<close>

definition remove_settle ::
  "string \<Rightarrow> ('a \<Rightarrow> string) \<Rightarrow> string \<Rightarrow> 'b ApiBody fetch_outcome \<Rightarrow> 'a list ApiBody hook
     \<Rightarrow> 'a list ApiBody hook \<times> RemoveResult" where
  "remove_settle what ident x out s =
     (case out of
        Rejected \<Rightarrow> (s, \<lparr>ok = False, msg = ''Gagal menghapus '' @ what @ ''. Coba lagi.''\<rparr>)
      | Resolved res \<Rightarrow>
          (case read_body res of
             Inl e \<Rightarrow> (s, \<lparr>ok = False, msg = ''Gagal menghapus '' @ what @ ''. Coba lagi.''\<rparr>)
           | Inr b \<Rightarrow>
               if \<not> res_ok res \<or> reports_failure b then
                 (s, \<lparr>ok = False,
                      msg = or_else (message_of b)
                              (''Gagal menghapus '' @ what @ '' ('' @ String_of (int (status res))
                               @ '').'')\<rparr>)
               else
                 (s\<lparr>data := optimistic ident x (data s)\<rparr>,
                  \<lparr>ok = True, msg = or_else (message_of b) (''Berhasil menghapus '' @ what)\<rparr>)))"

text \<open>
  \<open>remove\<close> as a whole: the new state, the requests that were sent and the result.
\<close>

definition useProjects_remove ::
  "string option \<Rightarrow> string option \<Rightarrow> string \<Rightarrow> 'b ApiBody fetch_outcome \<Rightarrow> ProjectsResponse hook
     \<Rightarrow> ProjectsResponse hook \<times> Request list \<times> RemoveResult" where
  "useProjects_remove API_HOST token x out s =
     (if no_session API_HOST token then
        (s\<lparr>error := SESSION_INVALID\<rparr>, [], \<lparr>ok = False, msg = SESSION_INVALID\<rparr>)
      else
        let (s', r) = remove_settle ''project'' project_id x out s
        in (s', [delete_request (projects_endpoint API_HOST @ ''/'' @ encodeURIComponent x)
                   (or_else token [])], r))"

definition useWorklogs_remove ::
  "string option \<Rightarrow> string option \<Rightarrow> string option \<Rightarrow> string \<Rightarrow> 'b ApiBody fetch_outcome
     \<Rightarrow> WorklogsResponse hook \<Rightarrow> WorklogsResponse hook \<times> Request list \<times> RemoveResult" where
  "useWorklogs_remove API_HOST token pid x out s =
     (if or_else pid [] = [] then (s, [], \<lparr>ok = False, msg = ''ID project tidak valid.''\<rparr>)
      else if no_session API_HOST token then
        (s\<lparr>error := SESSION_INVALID\<rparr>, [], \<lparr>ok = False, msg = SESSION_INVALID\<rparr>)
      else
        let (s', r) = remove_settle ''worklog'' worklog_id x out s
        in (s', [delete_request
                   (template API_HOST @ ''/projects/'' @ encodeURIComponent (or_else pid [])
                    @ ''/worklogs/'' @ encodeURIComponent x)
                   (or_else token [])], r))"

section \<open>The dashboard hook (src/hooks/use-dashboard.ts)\<close>

record Totals =
  totalProjects :: jsval
  worklogsThisWeek :: nat

record 'u DashboardData =
  me :: "'u option"
  projects :: "ProjectsResponse option"
  recentWorklogs :: "WorklogItem list"
  totals :: Totals

definition endpoints_me :: "string option \<Rightarrow> string" where
  "endpoints_me API_HOST = template API_HOST @ ''/auth/me''"

definition endpoints_projects :: "string option \<Rightarrow> string" where
  "endpoints_projects API_HOST = template API_HOST @ ''/projects?limit=5''"

definition endpoints_worklogs :: "string option \<Rightarrow> string \<Rightarrow> string" where
  "endpoints_worklogs API_HOST pid = template API_HOST @ ''/projects/'' @ pid @ ''/worklogs?limit=5''"

text \<open>The part of \<open>load\<close> up to the first two fetches, which are sent together.\<close>

definition useDashboardData_load_start ::
  "string option \<Rightarrow> string option \<Rightarrow> 'd hook \<Rightarrow> 'd hook \<times> (nat \<times> Request list) option" where
  "useDashboardData_load_start API_HOST token s =
     (let s = s\<lparr>loading := True, error := []\<rparr>
      in if no_session API_HOST token then
           (s\<lparr>loading := False, error := SESSION_INVALID, data := None\<rparr>, None)
         else
           let (s, controller) = new_controller (abort_current s)
           in (s, Some (controller,
                 [fetchWithAuth_request (endpoints_me API_HOST) (or_else token []),
                  fetchWithAuth_request (endpoints_projects API_HOST) (or_else token [])])))"

text \<open>\<open>projResp?.data || []\<close>\<close>

definition data_or_empty :: "'a list ApiBody option \<Rightarrow> 'a list" where
  "data_or_empty r =
     (case r of None \<Rightarrow> []
      | Some b \<Rightarrow> (case ApiBody.data b of None \<Rightarrow> [] | Some xs \<Rightarrow> xs))"

text \<open>
  One fetch of worklogs per project of the first page, sent when the first two fetches
  have succeeded.
\<close>

definition worklog_requests ::
  "string option \<Rightarrow> string option \<Rightarrow> ProjectsResponse option \<Rightarrow> Request list" where
  "worklog_requests API_HOST token projResp =
     map (\<lambda>p. fetchWithAuth_request (endpoints_worklogs API_HOST (project_id p)) (or_else token []))
       (data_or_empty projResp)"

text \<open>
  The worklogs of one project: \<open>.then((w) => (w?.data || []).map((it) => ({ ...it,
  projectId: p.id }))).catch(() => [])\<close>
\<close>

definition worklogs_of :: "ProjectItem \<Rightarrow> WorklogsResponse fetch_outcome \<Rightarrow> WorklogItem list" where
  "worklogs_of p out =
     (case fetchWithAuth out of
        Inr w \<Rightarrow> map (\<lambda>it. it\<lparr>projectId := Some (project_id p)\<rparr>) (data_or_empty w)
      | Inl e \<Rightarrow> [])"

text \<open>
  \<open>new Date(text).getTime()\<close> is a parameter \<open>getTime\<close>, \<open>None\<close> for an invalid date
  (NaN). The comparator of the sort is \<open>getTime(b.createdAt) - getTime(a.createdAt)\<close>; a
  NaN counts as 0 in a sort.
\<close>

definition by_createdAt :: "(string \<Rightarrow> int option) \<Rightarrow> WorklogItem \<Rightarrow> WorklogItem \<Rightarrow> int" where
  "by_createdAt getTime a b =
     (case (getTime (createdAt b), getTime (createdAt a)) of
        (Some tb, Some ta) \<Rightarrow> tb - ta
      | _ \<Rightarrow> 0)"

text \<open>
  \<open>Array.prototype.sort\<close> is stable: elements that compare equal keep their order. It
  is the stable insertion sort here; where the comparator is not consistent (an invalid
  date) the language leaves the order to the implementation.
\<close>

fun insert_by :: "('a \<Rightarrow> 'a \<Rightarrow> int) \<Rightarrow> 'a \<Rightarrow> 'a list \<Rightarrow> 'a list" where
  "insert_by cmp x [] = [x]"
| "insert_by cmp x (y # ys) = (if cmp x y \<le> 0 then x # y # ys else y # insert_by cmp x ys)"

definition js_sort :: "('a \<Rightarrow> 'a \<Rightarrow> int) \<Rightarrow> 'a list \<Rightarrow> 'a list" where
  "js_sort cmp xs = foldr (insert_by cmp) xs []"

text \<open>\<open>new Date(w.logDate) >= weekAgo\<close>; a comparison with NaN is false.\<close>

definition this_week :: "(string \<Rightarrow> int option) \<Rightarrow> int \<Rightarrow> WorklogItem \<Rightarrow> bool" where
  "this_week getTime weekAgo w =
     (case getTime (logDate w) of None \<Rightarrow> False | Some t \<Rightarrow> weekAgo \<le> t)"

text \<open>\<open>projResp?.meta?.totalItems ?? projects.length\<close>\<close>

definition totalProjects_of :: "ProjectsResponse option \<Rightarrow> jsval" where
  "totalProjects_of projResp =
     (case (case projResp of None \<Rightarrow> None | Some b \<Rightarrow> meta b) of
        None \<Rightarrow> Num (Number (int (length (data_or_empty projResp))))
      | Some m \<Rightarrow>
          (case totalItems m of
             Nullish \<Rightarrow> Num (Number (int (length (data_or_empty projResp))))
           | v \<Rightarrow> v))"

text \<open>
  The worklogs of all projects, in the order of the projects; \<open>wl i\<close> is the outcome of
  the fetch for the project at position \<open>i\<close>.
\<close>

definition worklogLists ::
  "ProjectItem list \<Rightarrow> (nat \<Rightarrow> WorklogsResponse fetch_outcome) \<Rightarrow> WorklogItem list list" where
  "worklogLists ps wl = map (\<lambda>(i, p). worklogs_of p (wl i)) (enumerate 0 ps)"

text \<open>
  The \<open>try\<close> block once the first two fetches have succeeded. \<open>sort\<close> sorts
  \<open>allWorklogs\<close> in place, so the week count reads the sorted array; \<open>weekAgo\<close> is the
  time seven days before now.
\<close>

definition dashboard_data ::
  "(string \<Rightarrow> int option) \<Rightarrow> int \<Rightarrow> 'u ApiBody option \<Rightarrow> ProjectsResponse option
     \<Rightarrow> (nat \<Rightarrow> WorklogsResponse fetch_outcome) \<Rightarrow> 'u DashboardData" where
  "dashboard_data getTime weekAgo meResp projResp wl =
     (let projects = data_or_empty projResp;
          allWorklogs = js_sort (by_createdAt getTime) (concat (worklogLists projects wl));
          recentWorklogs = take 5 allWorklogs;
          totalProjects = totalProjects_of projResp;
          worklogsThisWeek = length (filter (this_week getTime weekAgo) allWorklogs)
      in \<lparr>me = (case meResp of None \<Rightarrow> None | Some b \<Rightarrow> ApiBody.data b),
          projects = projResp,
          recentWorklogs = recentWorklogs,
          totals = \<lparr>totalProjects = totalProjects, worklogsThisWeek = worklogsThisWeek\<rparr>\<rparr>)"

text \<open>
  The part of \<open>load\<close> after the fetches. \<open>Promise.all\<close> of the first two rejects when
  one of them does. Nothing here looks at the controller of the request.
\<close>

definition useDashboardData_load_finish ::
  "(string \<Rightarrow> int option) \<Rightarrow> int \<Rightarrow> 'u ApiBody fetch_outcome \<Rightarrow> ProjectsResponse fetch_outcome
     \<Rightarrow> (nat \<Rightarrow> WorklogsResponse fetch_outcome) \<Rightarrow> 'u DashboardData hook \<Rightarrow> 'u DashboardData hook" where
  "useDashboardData_load_finish getTime weekAgo me_out proj_out wl s =
     (case (fetchWithAuth me_out, fetchWithAuth proj_out) of
        (Inr meResp, Inr projResp) \<Rightarrow>
          (s\<lparr>data := Some (dashboard_data getTime weekAgo meResp projResp wl)\<rparr>)\<lparr>loading := False\<rparr>
      | _ \<Rightarrow>
          (s\<lparr>error := ''Gagal memuat dashboard. Coba lagi.'', data := None\<rparr>)\<lparr>loading := False\<rparr>)"

section \<open>The login hook (src/hooks/use-auth.ts)\<close>

record LoginPayload =
  email :: string
  password :: string

record LoginSuccess = ApiErrorBody +
  access_token :: string
  refresh_token :: string
  role :: string

datatype LoginResult = Login_ok LoginSuccess | Login_failed string

text \<open>
  The hook holds \<open>isLoading\<close> (the field \<open>loading\<close> here), \<open>error\<close> and the
  \<open>abortRef\<close>; it holds no data.
\<close>

definition useLogin_login_start ::
  "string option \<Rightarrow> LoginPayload \<Rightarrow> unit hook \<Rightarrow> unit hook \<times> (nat \<times> Request) option" where
  "useLogin_login_start API_HOST p s =
     (if or_else API_HOST [] = [] then
        (s\<lparr>error := ''Konfigurasi API tidak ditemukan.''\<rparr>, None)
      else
        let (s, controller) = new_controller (abort_current s);
            s = s\<lparr>loading := True, error := []\<rparr>
        in (s, Some (controller,
              \<lparr>http_method = ''POST'', url = template API_HOST @ ''/auth/login'',
               headers = [(''Content-Type'', ''application/json'')],
               payload = [(''email'', trim (email p)), (''password'', password p)]\<rparr>)))"

text \<open>
  The part after the fetch: the state, the cookies that were set (name, value, days) and
  the result. A 2xx response without a body makes the reading of the tokens throw, and
  the \<open>catch\<close> block takes over; \<open>finally\<close> ends the loading on every path.
\<close>

definition useLogin_login_finish ::
  "LoginSuccess fetch_outcome \<Rightarrow> unit hook \<Rightarrow> unit hook \<times> (string \<times> string \<times> nat) list \<times> LoginResult" where
  "useLogin_login_finish out s =
     (let failed = ''Gagal melakukan login. Periksa koneksi Anda.''
      in case out of
           Rejected \<Rightarrow> (s\<lparr>error := failed, loading := False\<rparr>, [], Login_failed failed)
         | Resolved res \<Rightarrow>
             (case read_body res of
                Inl e \<Rightarrow> (s\<lparr>error := failed, loading := False\<rparr>, [], Login_failed failed)
              | Inr b \<Rightarrow>
                  if \<not> res_ok res then
                    (s\<lparr>error := parseApiError (status res) b, loading := False\<rparr>, [],
                     Login_failed (parseApiError (status res) b))
                  else
                    (case b of
                       None \<Rightarrow> (s\<lparr>error := failed, loading := False\<rparr>, [], Login_failed failed)
                     | Some d \<Rightarrow>
                         (s\<lparr>loading := False\<rparr>,
                          [(''access_token'', access_token d, 7),
                           (''refresh_token'', refresh_token d, 30),
                           (''role'', role d, 7)],
                          Login_ok d))))"

section \<open>The pages of a project (ProjectDetail, WorklogsList, WorklogDetail)\<close>

definition ProjectStatus_ACTIVE :: string where
  "ProjectStatus_ACTIVE = ''ACTIVE''"

definition ProjectStatus_ARCHIVED :: string where
  "ProjectStatus_ARCHIVED = ''ARCHIVED''"

text \<open>\<open>canManage\<close> of useProjectDetail: the role cookie, as \<open>getCookie\<close> returns it.\<close>

definition canManage :: "string option \<Rightarrow> bool" where
  "canManage role_cookie = (or_else role_cookie [] = ''ADMIN'')"

text \<open>
  What a page renders, as far as its actions go. A button is shown or not, and a shown
  button is disabled or not.
\<close>

text \<open>
  The project page has two buttons that lead to a new worklog: Add Worklog in the header,
  and Add worklog in the card of the latest worklogs, which is rendered when
  \<open>data.worklogs\<close> is empty; otherwise the card holds the table of these worklogs.
  \<open>NoWorklogs d\<close> is the empty card, with \<open>d\<close> saying whether its button is disabled.
\<close>

datatype latest_worklogs = NoWorklogs bool | LatestTable "string list"

record ProjectDetailPage =
  archivedNotice :: bool
  addWorklogDisabled :: bool
  editShown :: bool
  archiveShown :: bool
  latestWorklogs :: latest_worklogs

datatype 'p rendered = LoadingState | NotFoundCard | ErrorCard string | Page 'p

text \<open>
  The arguments are \<open>loading\<close>, \<open>notFound\<close>, \<open>error\<close>, \<open>data.project\<close>,
  \<open>data.worklogs\<close> and \<open>canManage\<close> of useProjectDetail. The button of the empty
  card is given no \<open>disabled\<close> prop.
\<close>

definition ProjectDetail ::
  "bool \<Rightarrow> bool \<Rightarrow> string \<Rightarrow> ProjectItem option \<Rightarrow> WorklogItem list \<Rightarrow> bool
     \<Rightarrow> ProjectDetailPage rendered" where
  "ProjectDetail is_loading notFound err project worklogs can_manage =
     (if is_loading then LoadingState
      else if notFound then NotFoundCard
      else case project of
             None \<Rightarrow> ErrorCard (or_else (Some err) ''Gagal memuat project. Coba lagi.'')
           | Some p \<Rightarrow>
               let isArchived = (project_status p = ProjectStatus_ARCHIVED)
               in Page \<lparr>archivedNotice = isArchived,
                        addWorklogDisabled = isArchived,
                        editShown = (\<not> isArchived \<and> can_manage),
                        archiveShown = (\<not> isArchived \<and> can_manage),
                        latestWorklogs =
                          (if length worklogs = 0 then NoWorklogs False
                           else LatestTable (map worklog_id worklogs))\<rparr>)"

text \<open>\<open>pd.project?.status === ProjectStatus.ARCHIVED\<close>\<close>

definition archived :: "ProjectItem option \<Rightarrow> bool" where
  "archived project =
     (case project of None \<Rightarrow> False | Some p \<Rightarrow> project_status p = ProjectStatus_ARCHIVED)"

text \<open>
  The list of worklogs: the Add Worklog button of the header, and below it the loading
  state, the error state, the empty state with its own Add worklog button, or the table,
  where each row has Edit and Delete.
\<close>

datatype list_body = ListLoading | ListError | EmptyState bool | Table "string list"

record WorklogsListPage =
  headerAddDisabled :: bool
  list_body :: list_body

definition WorklogsList ::
  "ProjectItem option \<Rightarrow> bool \<Rightarrow> string \<Rightarrow> WorklogItem list \<Rightarrow> WorklogsListPage" where
  "WorklogsList project is_loading err items =
     \<lparr>headerAddDisabled = archived project,
      list_body =
        (if is_loading then ListLoading
         else if err \<noteq> [] then ListError
         else if length items = 0 then EmptyState (archived project)
         else Table (map worklog_id items))\<rparr>"

record WorklogDetailPage =
  worklogEditShown :: bool
  worklogDeleteShown :: bool

definition WorklogDetail ::
  "ProjectItem option \<Rightarrow> bool \<Rightarrow> bool \<Rightarrow> string \<Rightarrow> 'w option \<Rightarrow> WorklogDetailPage rendered" where
  "WorklogDetail project is_loading notFound err worklog =
     (if is_loading then LoadingState
      else if notFound then NotFoundCard
      else case worklog of
             None \<Rightarrow> ErrorCard (or_else (Some err) ''Gagal memuat worklog. Coba lagi.'')
           | Some w \<Rightarrow>
               Page \<lparr>worklogEditShown = (\<not> archived project),
                      worklogDeleteShown = (\<not> archived project)\<rparr>)"

section \<open>Words of the specification\<close>

text \<open>A search parameter that is sent only when it has a value.\<close>

definition opt_param :: "string \<Rightarrow> string option \<Rightarrow> (string \<times> string) list" where
  "opt_param k v = (case v of None \<Rightarrow> [] | Some t \<Rightarrow> [(k, t)])"

section \<open>Example values\<close>

definition example_project :: "string \<Rightarrow> ProjectItem" where
  "example_project i =
     \<lparr>project_id = i, title = ''Devlog'', description = [], techStack = ''ts'',
      project_status = ''ACTIVE'', project_createdAt = ''2025-01-01T00:00:00Z''\<rparr>"

definition example_meta :: "int \<Rightarrow> int \<Rightarrow> Meta" where
  "example_meta l t =
     \<lparr>page = Num (Number 1), limit = Num (Number l), totalItems = Num (Number t),
      totalPages = Num (Number 2)\<rparr>"

definition example_projects :: "ProjectsResponse hook" where
  "example_projects =
     \<lparr>loading = False, error = [],
      data = Some \<lparr>success = Some True, message = None,
                   ApiBody.data = Some [example_project ''p1'', example_project ''p2''],
                   meta = Some (example_meta 10 11)\<rparr>,
      abortRef = None, aborted = {}, fresh = 0\<rparr>"

text \<open>A response with a JSON body, and one without.\<close>

definition json_response :: "nat \<Rightarrow> 'b \<Rightarrow> 'b fetch_outcome" where
  "json_response st b = Resolved \<lparr>status = st, isJson = True, json = Parsed (Some b)\<rparr>"

definition plain_response :: "nat \<Rightarrow> 'b fetch_outcome" where
  "plain_response st = Resolved \<lparr>status = st, isJson = False, json = Parsed None\<rparr>"

text \<open>A hook whose request with the controller \<open>c\<close> is in flight.\<close>

definition in_flight :: "nat \<Rightarrow> 'd hook" where
  "in_flight c =
     \<lparr>loading = True, error = [], data = None, abortRef = Some c, aborted = {}, fresh = Suc c\<rparr>"

text \<open>The state of a hook when it is mounted.\<close>

definition mounted :: "'d hook" where
  "mounted =
     \<lparr>loading = True, error = [], data = None, abortRef = None, aborted = {}, fresh = 0\<rparr>"

text \<open>The value of the Authorization header of a request, when it has one.\<close>

definition authorization :: "Request \<Rightarrow> string option" where
  "authorization r = map_of (headers r) ''Authorization''"

text \<open>Bodies of failed requests.\<close>

definition error_body :: "string \<Rightarrow> unit ApiBody" where
  "error_body m = \<lparr>success = Some False, message = Some m, ApiBody.data = None, meta = None\<rparr>"

definition login_error_body :: "string \<Rightarrow> LoginSuccess" where
  "login_error_body m =
     \<lparr>err_message = Some m, err_error = Some ''Unauthorized'', statusCode = Some 401,
      access_token = [], refresh_token = [], role = []\<rparr>"

text \<open>
  \<open>not_older getTime a b\<close>: both dates are valid and \<open>a\<close> was created at the time of
  \<open>b\<close> or later.
\<close>

definition not_older :: "(string \<Rightarrow> int option) \<Rightarrow> WorklogItem \<Rightarrow> WorklogItem \<Rightarrow> bool" where
  "not_older getTime a b =
     (case (getTime (createdAt a), getTime (createdAt b)) of
        (Some ta, Some tb) \<Rightarrow> tb \<le> ta
      | _ \<Rightarrow> False)"

text \<open>A successful response that holds no worklogs.\<close>

definition no_worklogs :: "WorklogsResponse fetch_outcome" where
  "no_worklogs =
     json_response 200 \<lparr>success = Some True, message = None, ApiBody.data = Some [], meta = None\<rparr>"

text \<open>
  Example worklogs. The dates of the examples are the first days of March 2025, and
  \<open>day_of\<close> reads such a date as the number of its day; any other text is an invalid
  date.
\<close>

definition example_worklog :: "string \<Rightarrow> string \<Rightarrow> WorklogItem" where
  "example_worklog i d =
     \<lparr>worklog_id = i, logDate = d, activityType = ''coding'', summary = ''refactor'',
      timeSpent = 60, blockers = [], createdAt = d, projectId = None\<rparr>"

definition day_of :: "string \<Rightarrow> int option" where
  "day_of = map_of [(''2025-03-01'', 1), (''2025-03-02'', 2), (''2025-03-03'', 3),
                    (''2025-03-04'', 4), (''2025-03-05'', 5), (''2025-03-06'', 6),
                    (''2025-03-07'', 7), (''2025-03-08'', 8), (''2025-03-09'', 9)]"

definition example_page :: ProjectsResponse where
  "example_page =
     \<lparr>success = Some True, message = None,
      ApiBody.data = Some [example_project ''p1'', example_project ''p2'', example_project ''p3''],
      meta = None\<rparr>"

text \<open>The fetch for the second project fails.\<close>

definition example_fetches :: "nat \<Rightarrow> WorklogsResponse fetch_outcome" where
  "example_fetches i =
     (if i = 0 then
        json_response 200
          \<lparr>success = Some True, message = None,
           ApiBody.data = Some [example_worklog ''w1'' ''2025-03-02'',
                                example_worklog ''w2'' ''2025-03-08'',
                                example_worklog ''w3'' ''2025-03-05'',
                                example_worklog ''w4'' ''2025-03-01''],
           meta = None\<rparr>
      else if i = 1 then Rejected
      else
        json_response 200
          \<lparr>success = Some True, message = None,
           ApiBody.data = Some [example_worklog ''w5'' ''2025-03-08'',
                                example_worklog ''w6'' ''2025-03-03'',
                                example_worklog ''w7'' ''2025-03-09''],
           meta = None\<rparr>)"

text \<open>
  A first page with one project, whose worklogs hold a createdAt that is not a date; and
  a first page of seven projects with one worklog each, the worklog of the project at
  position \<open>i\<close> being of the day \<open>i + 1\<close>.
\<close>

definition one_project_page :: ProjectsResponse where
  "one_project_page =
     \<lparr>success = Some True, message = None, ApiBody.data = Some [example_project ''p1''],
      meta = None\<rparr>"

definition bad_date_fetches :: "nat \<Rightarrow> WorklogsResponse fetch_outcome" where
  "bad_date_fetches i =
     json_response 200
       \<lparr>success = Some True, message = None,
        ApiBody.data = Some [example_worklog ''a'' ''2025-03-01'', example_worklog ''x'' ''bad'',
                             example_worklog ''b'' ''2025-03-02''],
        meta = None\<rparr>"

definition seven_projects_page :: ProjectsResponse where
  "seven_projects_page =
     \<lparr>success = Some True, message = None,
      ApiBody.data = Some (map example_project
                             [''p1'', ''p2'', ''p3'', ''p4'', ''p5'', ''p6'', ''p7'']),
      meta = None\<rparr>"

definition seven_fetches :: "nat \<Rightarrow> WorklogsResponse fetch_outcome" where
  "seven_fetches i =
     json_response 200
       \<lparr>success = Some True, message = None,
        ApiBody.data = Some [example_worklog (''w'' @ String_of (int (Suc i)))
                               (''2025-03-0'' @ String_of (int (Suc i)))],
        meta = None\<rparr>"

text \<open>
  The dashboard hook after \<open>load\<close> was called twice in a row with a valid session: the
  request of the first call has the controller 0, the request of the second call has
  the controller 1 and is the one in flight.
\<close>

definition dashboard_reloaded :: "unit DashboardData hook" where
  "dashboard_reloaded =
     fst (useDashboardData_load_start (Some ''https://api.test'') (Some ''t0k'')
       (fst (useDashboardData_load_start (Some ''https://api.test'') (Some ''t0k'') mounted)))"

text \<open>The same for the projects hook.\<close>

definition projects_reloaded :: "ProjectsResponse hook" where
  "projects_reloaded =
     fst (useProjects_load_start (Some ''https://api.test'') (Some ''t0k'')
            \<lparr>query_search = None, query_status = Some Filter_ALL, query_page = Some 1,
              query_limit = Some 10\<rparr>
       (fst (useProjects_load_start (Some ''https://api.test'') (Some ''t0k'')
               \<lparr>query_search = None, query_status = Some Filter_ALL, query_page = Some 1,
                 query_limit = Some 10\<rparr> mounted)))"

section \<open>Properties of the route guard\<close>

lemma startsWith_append: "startsWith s p \<longleftrightarrow> (\<exists>r. s = p @ r)"
  unfolding startsWith_def
  by (metis append_eq_conv_conj append_take_drop_id)

lemma isDashboard_eq:
  "list_ex (\<lambda>p. startsWith path p) dashboardGroupPrefixes = in_dashboard_group path"
  by (simp add: dashboardGroupPrefixes_def in_dashboard_group_def)

lemma dashboard_not_admin: "in_dashboard_group p \<Longrightarrow> \<not> startsWith p ''/admin''"
  by (auto simp: in_dashboard_group_def startsWith_append)

lemma or_else_empty: "or_else x [] = (case x of None \<Rightarrow> [] | Some v \<Rightarrow> v)"
  by (simp add: or_else_def split: option.splits)

text \<open>
  C1. A request outside the guarded prefixes passes through. A guarded request without a
  (non-empty) access_token cookie is redirected to the login path, with the search
  parameter d set to the URL-encoded pathname plus search. With a token, a path of the
  dashboard group passes exactly when the upper-cased role cookie is USER, goes to /admin
  when it is ADMIN and to the login path otherwise; a path under /admin passes exactly
  when the role is ADMIN, goes to /dashboard when it is USER and to the login path
  otherwise.
\<close>

theorem middleware_route_guard:
  "middleware env req =
     (let path = pathname (nextUrl req);
          orig = origin (nextUrl req);
          token = (case cookies req ''access_token'' of None \<Rightarrow> [] | Some v \<Rightarrow> v);
          role = toUpperCase (case cookies req ''role'' of None \<Rightarrow> [] | Some v \<Rightarrow> v);
          login = or_else env ''/login''
      in if \<not> (in_dashboard_group path \<or> startsWith path ''/admin'') then Next_response
         else if token = [] then
           Redirect \<lparr>input = login, base = orig,
                     searchParams = [(''d'', encodeURIComponent (path @ search (nextUrl req)))]\<rparr>
         else if in_dashboard_group path then
           (if role = ''USER'' then Next_response
            else if role = ''ADMIN'' then Redirect (new_URL ''/admin'' orig)
            else Redirect (new_URL login orig))
         else
           (if role = ''ADMIN'' then Next_response
            else if role = ''USER'' then Redirect (new_URL ''/dashboard'' orig)
            else Redirect (new_URL login orig)))"
proof (cases "in_dashboard_group (pathname (nextUrl req))")
  case True
  then have "\<not> startsWith (pathname (nextUrl req)) ''/admin''"
    by (rule dashboard_not_admin)
  with True show ?thesis
    by (simp add: middleware_def isDashboard_eq or_else_empty Let_def ACCESS_TOKEN_COOKIE_def
        ROLE_COOKIE_def new_URL_def searchParams_set_def)
next
  case False
  then show ?thesis
    by (simp add: middleware_def isDashboard_eq or_else_empty Let_def ACCESS_TOKEN_COOKIE_def
        ROLE_COOKIE_def new_URL_def searchParams_set_def)
qed

theorem middleware_route_guard_witness:
  "middleware None
     \<lparr>nextUrl = \<lparr>pathname = ''/projects/7'', origin = ''https://devlog.test'', search = ''?tab=2''\<rparr>,
      cookies = Map.empty\<rparr>
   = Redirect \<lparr>input = ''/login'', base = ''https://devlog.test'',
               searchParams = [(''d'', ''%2Fprojects%2F7%3Ftab%3D2'')]\<rparr>
   \<and> middleware None
     \<lparr>nextUrl = \<lparr>pathname = ''/admin/users'', origin = ''https://devlog.test'', search = ''''\<rparr>,
      cookies = [''access_token'' \<mapsto> ''t0k'', ''role'' \<mapsto> ''user'']\<rparr>
   = Redirect \<lparr>input = ''/dashboard'', base = ''https://devlog.test'', searchParams = []\<rparr>"
  using middleware_route_guard [of None
      "\<lparr>nextUrl = \<lparr>pathname = ''/projects/7'', origin = ''https://devlog.test'', search = ''?tab=2''\<rparr>,
        cookies = Map.empty\<rparr>"]
    middleware_route_guard [of None
      "\<lparr>nextUrl = \<lparr>pathname = ''/admin/users'', origin = ''https://devlog.test'', search = ''''\<rparr>,
        cookies = [''access_token'' \<mapsto> ''t0k'', ''role'' \<mapsto> ''user'']\<rparr>"]
  by (simp add: in_dashboard_group_def startsWith_def or_else_def new_URL_def
      encodeURIComponent_def alnum_def percent_def hex_digit_def toUpperCase_def upper_char_def)

section \<open>Properties of the list hooks\<close>

subsection \<open>The query string\<close>

lemma trim_Nil: "trim [] = []"
  by (simp add: trim_def)

lemma join_amp_Nil: "join_amp xs = [] \<longleftrightarrow> xs = [] \<or> xs = [[]]"
  by (induction xs rule: join_amp.induct) auto

lemma params_toString_Nil: "params_toString ps = [] \<longleftrightarrow> ps = []"
  by (cases ps) (auto simp: params_toString_def join_amp_Nil split: prod.splits)

lemma request_url_iff:
  "request_url e ps = (if ps = [] then e else e @ ''?'' @ params_toString ps)"
  by (simp add: request_url_def params_toString_Nil)

lemma projects_params_eq:
  "projects_params q =
     opt_param ''search'' (case query_search q of None \<Rightarrow> None
                           | Some s \<Rightarrow> if trim s \<noteq> [] then Some (trim s) else None)
   @ opt_param ''status'' (case query_status q of None \<Rightarrow> None
                           | Some st \<Rightarrow> if st \<noteq> Filter_ALL then Some (status_text st) else None)
   @ opt_param ''page'' (case query_page q of None \<Rightarrow> None
                         | Some p \<Rightarrow> if 1 < p then Some (String_of p) else None)
   @ opt_param ''limit'' (case query_limit q of None \<Rightarrow> None
                          | Some l \<Rightarrow> if l \<noteq> 0 \<and> l \<noteq> 10 then Some (String_of l) else None)"
  by (auto simp: projects_params_def opt_param_def trim_Nil split: option.splits)

lemma worklogs_params_eq:
  "worklogs_params q =
     opt_param ''fromDate'' (case fromDate q of None \<Rightarrow> None
                             | Some d \<Rightarrow> if d \<noteq> [] then Some d else None)
   @ opt_param ''toDate'' (case toDate q of None \<Rightarrow> None
                           | Some d \<Rightarrow> if d \<noteq> [] then Some d else None)
   @ opt_param ''activityType'' (case query_activityType q of None \<Rightarrow> None
                                 | Some a \<Rightarrow> if trim a \<noteq> [] then Some (trim a) else None)
   @ opt_param ''page'' (case wquery_page q of None \<Rightarrow> None
                         | Some p \<Rightarrow> if 1 < p then Some (String_of p) else None)
   @ opt_param ''limit'' (case wquery_limit q of None \<Rightarrow> None
                          | Some l \<Rightarrow> if l \<noteq> 0 \<and> l \<noteq> 10 then Some (String_of l) else None)"
  by (auto simp: worklogs_params_def opt_param_def trim_Nil split: option.splits)

lemma useProjects_load_url:
  "\<not> no_session API_HOST token \<Longrightarrow>
   map_option (\<lambda>cr. url (snd cr)) (snd (useProjects_load_start API_HOST token q s)) =
     Some (request_url (projects_endpoint API_HOST) (projects_params q))"
  by (simp add: useProjects_load_start_def new_controller_def fetchWithAuth_request_def Let_def)

lemma useWorklogs_load_url:
  "\<not> no_session API_HOST token \<Longrightarrow> or_else pid [] \<noteq> [] \<Longrightarrow>
   map_option (\<lambda>cr. url (snd cr)) (snd (useWorklogs_load_start API_HOST token pid wq s)) =
     Some (request_url (baseEndpoint API_HOST pid) (worklogs_params wq))"
  by (simp add: useWorklogs_load_start_def new_controller_def fetchWithAuth_request_def Let_def)

lemma default_projects_query:
  "projects_params \<lparr>query_search = None, query_status = Some Filter_ALL,
                    query_page = Some 1, query_limit = Some 10\<rparr> = []"
  by (simp add: projects_params_def)

lemma default_worklogs_query:
  "worklogs_params \<lparr>fromDate = None, toDate = None, query_activityType = None,
                    wquery_page = Some 1, wquery_limit = Some 10\<rparr> = []"
  by (simp add: worklogs_params_def)

text \<open>
  C10. The URL that \<open>load\<close> requests is the endpoint, followed by a query string only
  when there is a parameter to send. The parameters are, in this order: the trimmed
  search text when it is not empty; the status when it is set and is not ALL; the page
  when it is above 1; the limit when it is set, not 10 (and not 0, which is falsy); for
  worklogs, the two dates when set, the trimmed activity type when not empty, the page
  and the limit likewise. The default queries give the bare endpoint.
\<close>

theorem canonical_query_string:
  "(\<not> no_session API_HOST token \<longrightarrow>
      map_option (\<lambda>cr. url (snd cr)) (snd (useProjects_load_start API_HOST token q s)) =
        Some (request_url (projects_endpoint API_HOST) (projects_params q)))
   \<and> (\<not> no_session API_HOST token \<and> or_else pid [] \<noteq> [] \<longrightarrow>
      map_option (\<lambda>cr. url (snd cr)) (snd (useWorklogs_load_start API_HOST token pid wq sw)) =
        Some (request_url (baseEndpoint API_HOST pid) (worklogs_params wq)))
   \<and> request_url e ps = (if ps = [] then e else e @ ''?'' @ params_toString ps)
   \<and> projects_params q =
        opt_param ''search'' (case query_search q of None \<Rightarrow> None
                              | Some s \<Rightarrow> if trim s \<noteq> [] then Some (trim s) else None)
      @ opt_param ''status'' (case query_status q of None \<Rightarrow> None
                              | Some st \<Rightarrow> if st \<noteq> Filter_ALL then Some (status_text st) else None)
      @ opt_param ''page'' (case query_page q of None \<Rightarrow> None
                            | Some p \<Rightarrow> if 1 < p then Some (String_of p) else None)
      @ opt_param ''limit'' (case query_limit q of None \<Rightarrow> None
                             | Some l \<Rightarrow> if l \<noteq> 0 \<and> l \<noteq> 10 then Some (String_of l) else None)
   \<and> worklogs_params wq =
        opt_param ''fromDate'' (case fromDate wq of None \<Rightarrow> None
                                | Some d \<Rightarrow> if d \<noteq> [] then Some d else None)
      @ opt_param ''toDate'' (case toDate wq of None \<Rightarrow> None
                              | Some d \<Rightarrow> if d \<noteq> [] then Some d else None)
      @ opt_param ''activityType'' (case query_activityType wq of None \<Rightarrow> None
                                    | Some a \<Rightarrow> if trim a \<noteq> [] then Some (trim a) else None)
      @ opt_param ''page'' (case wquery_page wq of None \<Rightarrow> None
                            | Some p \<Rightarrow> if 1 < p then Some (String_of p) else None)
      @ opt_param ''limit'' (case wquery_limit wq of None \<Rightarrow> None
                             | Some l \<Rightarrow> if l \<noteq> 0 \<and> l \<noteq> 10 then Some (String_of l) else None)
   \<and> request_url e (projects_params \<lparr>query_search = None, query_status = Some Filter_ALL,
                                      query_page = Some 1, query_limit = Some 10\<rparr>) = e
   \<and> request_url e (worklogs_params \<lparr>fromDate = None, toDate = None, query_activityType = None,
                                      wquery_page = Some 1, wquery_limit = Some 10\<rparr>) = e"
proof (intro conjI)
  show "\<not> no_session API_HOST token \<longrightarrow>
      map_option (\<lambda>cr. url (snd cr)) (snd (useProjects_load_start API_HOST token q s)) =
        Some (request_url (projects_endpoint API_HOST) (projects_params q))"
    by (simp add: useProjects_load_url)
  show "\<not> no_session API_HOST token \<and> or_else pid [] \<noteq> [] \<longrightarrow>
      map_option (\<lambda>cr. url (snd cr)) (snd (useWorklogs_load_start API_HOST token pid wq sw)) =
        Some (request_url (baseEndpoint API_HOST pid) (worklogs_params wq))"
    by (simp add: useWorklogs_load_url)
  show "request_url e ps = (if ps = [] then e else e @ ''?'' @ params_toString ps)"
    by (rule request_url_iff)
  show "request_url e (projects_params \<lparr>query_search = None, query_status = Some Filter_ALL,
                                        query_page = Some 1, query_limit = Some 10\<rparr>) = e"
    by (simp add: default_projects_query request_url_iff)
  show "request_url e (worklogs_params \<lparr>fromDate = None, toDate = None, query_activityType = None,
                                        wquery_page = Some 1, wquery_limit = Some 10\<rparr>) = e"
    by (simp add: default_worklogs_query request_url_iff)
qed (rule projects_params_eq, rule worklogs_params_eq)

theorem canonical_query_string_witness:
  "map_option (\<lambda>cr. url (snd cr))
     (snd (useProjects_load_start (Some ''https://api.test'') (Some ''t0k'')
        \<lparr>query_search = Some ''  a b '', query_status = Some Filter_ARCHIVED,
          query_page = Some 3, query_limit = Some 25\<rparr>
        \<lparr>loading = False, error = [], data = None :: ProjectsResponse option, abortRef = None,
          aborted = {}, fresh = 0\<rparr>))
   = Some ''https://api.test/projects?search=a+b&status=ARCHIVED&page=3&limit=25''
   \<and> map_option (\<lambda>cr. url (snd cr))
     (snd (useWorklogs_load_start (Some ''https://api.test'') (Some ''t0k'') (Some ''p 1'')
        \<lparr>fromDate = Some ''2025-01-01'', toDate = None, query_activityType = Some '' '',
          wquery_page = Some 1, wquery_limit = Some 0\<rparr>
        \<lparr>loading = False, error = [], data = None :: WorklogsResponse option, abortRef = None,
          aborted = {}, fresh = 0\<rparr>))
   = Some ''https://api.test/projects/p%201/worklogs?fromDate=2025-01-01''"
proof -
  have session: "\<not> no_session (Some ''https://api.test'') (Some ''t0k'')"
    and project: "or_else (Some ''p 1'') [] \<noteq> []"
    by (simp_all add: no_session_def or_else_def)
  have projects_url:
    "request_url (projects_endpoint (Some ''https://api.test''))
       (projects_params \<lparr>query_search = Some ''  a b '', query_status = Some Filter_ARCHIVED,
                         query_page = Some 3, query_limit = Some 25\<rparr>)
     = ''https://api.test/projects?search=a+b&status=ARCHIVED&page=3&limit=25''"
    by code_simp
  have worklogs_url:
    "request_url (baseEndpoint (Some ''https://api.test'') (Some ''p 1''))
       (worklogs_params \<lparr>fromDate = Some ''2025-01-01'', toDate = None,
                         query_activityType = Some '' '', wquery_page = Some 1,
                         wquery_limit = Some 0\<rparr>)
     = ''https://api.test/projects/p%201/worklogs?fromDate=2025-01-01''"
    by code_simp
  show ?thesis
    using session project
      canonical_query_string [of "Some ''https://api.test''" "Some ''t0k''"
        "\<lparr>query_search = Some ''  a b '', query_status = Some Filter_ARCHIVED,
          query_page = Some 3, query_limit = Some 25\<rparr>"
        "\<lparr>loading = False, error = [], data = None :: ProjectsResponse option,
          abortRef = None, aborted = {}, fresh = 0\<rparr>"
        "Some ''p 1''"
        "\<lparr>fromDate = Some ''2025-01-01'', toDate = None, query_activityType = Some '' '',
          wquery_page = Some 1, wquery_limit = Some 0\<rparr>"
        "\<lparr>loading = False, error = [], data = None :: WorklogsResponse option,
          abortRef = None, aborted = {}, fresh = 0\<rparr>"
        "[]" "[]"]
    unfolding projects_url worklogs_url by blast
qed

subsection \<open>Deleting an item\<close>



lemma remove_settle_failed:
  "\<not> ok (snd (remove_settle what ident x out s)) \<Longrightarrow>
   fst (remove_settle what ident x out s) = s"
  by (auto simp: remove_settle_def split: fetch_outcome.splits sum.splits if_splits)

lemma remove_settle_ok_iff:
  "ok (snd (remove_settle what ident x out s)) \<longleftrightarrow>
   (\<exists>res b. out = Resolved res \<and> read_body res = Inr b \<and> res_ok res \<and> \<not> reports_failure b)"
  by (auto simp: remove_settle_def split: fetch_outcome.splits sum.splits if_splits)


lemma remove_settle_failedD:
  "remove_settle what ident x out s = (s', r) \<Longrightarrow> \<not> ok r \<Longrightarrow> s' = s"
  using remove_settle_failed [of what ident x out s] by simp












lemma useProjects_remove_failed:
  "\<not> ok (snd (snd (useProjects_remove API_HOST token x out s))) \<Longrightarrow>
   data (fst (useProjects_remove API_HOST token x out s)) = data s"
  by (auto simp: useProjects_remove_def split: if_splits prod.splits dest: remove_settle_failedD)

lemma useWorklogs_remove_failed:
  "\<not> ok (snd (snd (useWorklogs_remove API_HOST token pid x out s))) \<Longrightarrow>
   data (fst (useWorklogs_remove API_HOST token pid x out s)) = data s"
  by (auto simp: useWorklogs_remove_def split: if_splits prod.splits dest: remove_settle_failedD)

lemma useProjects_remove_ok_iff:
  "ok (snd (snd (useProjects_remove API_HOST token x out s))) \<longleftrightarrow>
   \<not> no_session API_HOST token \<and>
   (\<exists>res b. out = Resolved res \<and> read_body res = Inr b \<and> res_ok res \<and> \<not> reports_failure b)"
  using remove_settle_ok_iff [of "''project''" project_id x out s]
  by (auto simp: useProjects_remove_def split: prod.splits)

lemma useWorklogs_remove_ok_iff:
  "ok (snd (snd (useWorklogs_remove API_HOST token pid x out s))) \<longleftrightarrow>
   or_else pid [] \<noteq> [] \<and> \<not> no_session API_HOST token \<and>
   (\<exists>res b. out = Resolved res \<and> read_body res = Inr b \<and> res_ok res \<and> \<not> reports_failure b)"
  using remove_settle_ok_iff [of "''worklog''" worklog_id x out s]
  by (auto simp: useWorklogs_remove_def split: prod.splits)

text \<open>
  C8. When \<open>remove\<close> returns ok = false, the held data of the hook is what it was before
  the call. It returns ok = true only when there is a session, the fetch resolves, its
  body can be read, the status is 2xx and the body does not report success = false: so an
  invalid session, a status outside 2xx, a body with success = false and a fetch (or a
  body) that throws all leave the held list as it was.
\<close>

theorem failed_delete_keeps_held_list:
  fixes s :: "ProjectsResponse hook" and sw :: "WorklogsResponse hook"
  shows
  "(\<not> ok (snd (snd (useProjects_remove API_HOST token x out s))) \<longrightarrow>
      data (fst (useProjects_remove API_HOST token x out s)) = data s)
   \<and> (\<not> ok (snd (snd (useWorklogs_remove API_HOST token pid x outw sw))) \<longrightarrow>
      data (fst (useWorklogs_remove API_HOST token pid x outw sw)) = data sw)
   \<and> (ok (snd (snd (useProjects_remove API_HOST token x out s))) \<longleftrightarrow>
      \<not> no_session API_HOST token \<and>
      (\<exists>res b. out = Resolved res \<and> read_body res = Inr b \<and> res_ok res \<and> \<not> reports_failure b))
   \<and> (ok (snd (snd (useWorklogs_remove API_HOST token pid x outw sw))) \<longleftrightarrow>
      or_else pid [] \<noteq> [] \<and> \<not> no_session API_HOST token \<and>
      (\<exists>res b. outw = Resolved res \<and> read_body res = Inr b \<and> res_ok res \<and> \<not> reports_failure b))"
  using useProjects_remove_failed [of API_HOST token x out s]
    useWorklogs_remove_failed [of API_HOST token pid x outw sw]
    useProjects_remove_ok_iff [of API_HOST token x out s]
    useWorklogs_remove_ok_iff [of API_HOST token pid x outw sw]
  by blast

theorem failed_delete_keeps_held_list_witness:
  "\<not> ok (snd (snd (useProjects_remove (Some ''https://api.test'') (Some ''t0k'') ''p2''
                     (json_response 200 \<lparr>success = Some False, message = Some ''in use'',
                                          ApiBody.data = None :: unit option, meta = None\<rparr>)
                     example_projects)))
   \<and> data (fst (useProjects_remove (Some ''https://api.test'') (Some ''t0k'') ''p2''
                  (json_response 200 \<lparr>success = Some False, message = Some ''in use'',
                                       ApiBody.data = None :: unit option, meta = None\<rparr>)
                  example_projects))
     = data example_projects"
proof -
  let ?run = "useProjects_remove (Some ''https://api.test'') (Some ''t0k'') ''p2''
                (json_response 200 \<lparr>success = Some False, message = Some ''in use'',
                                     ApiBody.data = None :: unit option, meta = None\<rparr>)
                example_projects"
  have failed: "\<not> ok (snd (snd ?run))"
    by code_simp
  with failed_delete_keeps_held_list [where API_HOST = "Some ''https://api.test''"
      and token = "Some ''t0k''" and x = "''p2''"
      and out = "json_response 200 \<lparr>success = Some False, message = Some ''in use'',
                                    ApiBody.data = None :: unit option, meta = None\<rparr>"
      and s = example_projects and pid = None
      and outw = "Rejected :: unit ApiBody fetch_outcome"
      and sw = "\<lparr>loading = False, error = [], data = None, abortRef = None, aborted = {},
                 fresh = 0\<rparr>"]
  show ?thesis
    by blast
qed

section \<open>Properties of the pages of a project\<close>

lemma archived_Some: "archived (Some p) = (project_status p = ''ARCHIVED'')"
  by (simp add: archived_def ProjectStatus_ARCHIVED_def)

lemma canManage_iff: "canManage rc = (rc = Some ''ADMIN'')"
  by (auto simp: canManage_def or_else_def split: option.splits)

lemma ProjectDetail_loaded:
  "\<not> is_loading \<Longrightarrow> \<not> notFound \<Longrightarrow>
   ProjectDetail is_loading notFound err (Some p) ws cm =
     Page \<lparr>archivedNotice = (project_status p = ''ARCHIVED''),
           addWorklogDisabled = (project_status p = ''ARCHIVED''),
           editShown = (project_status p \<noteq> ''ARCHIVED'' \<and> cm),
           archiveShown = (project_status p \<noteq> ''ARCHIVED'' \<and> cm),
           latestWorklogs = (if ws = [] then NoWorklogs False else LatestTable (map worklog_id ws))\<rparr>"
  by (simp add: ProjectDetail_def ProjectStatus_ARCHIVED_def Let_def)

lemma WorklogDetail_loaded:
  "\<not> is_loading \<Longrightarrow> \<not> notFound \<Longrightarrow>
   WorklogDetail (Some p) is_loading notFound err (Some w) =
     Page \<lparr>worklogEditShown = (project_status p \<noteq> ''ARCHIVED''),
           worklogDeleteShown = (project_status p \<noteq> ''ARCHIVED'')\<rparr>"
  by (simp add: WorklogDetail_def archived_Some)

lemma WorklogsList_add:
  "headerAddDisabled (WorklogsList (Some p) is_loading err items) = (project_status p = ''ARCHIVED'')
   \<and> (\<not> is_loading \<and> err = [] \<and> items = [] \<longrightarrow>
        list_body (WorklogsList (Some p) is_loading err items)
          = EmptyState (project_status p = ''ARCHIVED''))
   \<and> (list_body (WorklogsList (Some p) is_loading err items) = EmptyState b \<longrightarrow>
        b = (project_status p = ''ARCHIVED''))"
  by (auto simp: WorklogsList_def archived_Some)

text \<open>
  The second Add worklog button of the project page is never disabled, whatever the
  status of the project.
\<close>

lemma ProjectDetail_empty_card_enabled:
  "ProjectDetail is_loading notFound err project ws cm = Page v \<Longrightarrow>
   latestWorklogs v = NoWorklogs d \<Longrightarrow> \<not> d"
  by (auto simp: ProjectDetail_def Let_def split: if_splits option.splits)

text \<open>
  C7 fails on the project page. For a project whose status is ARCHIVED and that has no
  worklogs, the page disables Add Worklog in the header and shows neither Edit nor
  Archive, but the card of the latest worklogs shows its Add worklog button enabled: the
  action is still offered. The empty state of the list of worklogs, for the same project,
  disables its button, and the worklog page shows neither Edit nor Delete.
\<close>

theorem archived_project_offers_add_worklog:
  "ProjectDetail False False [] (Some ((example_project ''p1'')\<lparr>project_status := ''ARCHIVED''\<rparr>))
       [] (canManage (Some ''ADMIN''))
     = Page \<lparr>archivedNotice = True, addWorklogDisabled = True,
             editShown = False, archiveShown = False,
             latestWorklogs = NoWorklogs False\<rparr>
   \<and> WorklogsList (Some ((example_project ''p1'')\<lparr>project_status := ''ARCHIVED''\<rparr>))
        False [] []
     = \<lparr>headerAddDisabled = True, list_body = EmptyState True\<rparr>
   \<and> WorklogDetail (Some ((example_project ''p1'')\<lparr>project_status := ''ARCHIVED''\<rparr>))
        False False [] (Some ())
     = Page \<lparr>worklogEditShown = False, worklogDeleteShown = False\<rparr>"
  by (simp add: ProjectDetail_def WorklogsList_def WorklogDetail_def archived_def canManage_def
      or_else_def example_project_def ProjectStatus_ARCHIVED_def)

section \<open>The message of a failed request\<close>

lemma fetchWithAuth_not_ok:
  "out = Resolved res \<Longrightarrow> read_body res = Inr b \<Longrightarrow> \<not> res_ok res \<Longrightarrow>
   fetchWithAuth out =
     Inl (Error (or_else (message_of b) (''Request failed: '' @ String_of (int (status res)))))"
  by (simp add: fetchWithAuth_def)

lemma parseApiError_message:
  "err_message b = Some m \<Longrightarrow> m \<noteq> [] \<Longrightarrow> parseApiError st (Some b) = m"
  by (simp add: parseApiError_def)

lemma parseApiError_fallback:
  "(case bo of None \<Rightarrow> None | Some b \<Rightarrow> err_message b) \<in> {None, Some []} \<Longrightarrow>
   parseApiError st bo =
     (if st = 0 then ''Tidak dapat terhubung ke server. Coba lagi.''
      else if st \<ge> 500 then ''Terjadi kesalahan pada server. Coba beberapa saat lagi.''
      else ''Email atau kata sandi salah.'')"
  by (auto simp: parseApiError_def split: option.splits)

lemma login_not_ok:
  "out = Resolved res \<Longrightarrow> read_body res = Inr bo \<Longrightarrow> \<not> res_ok res \<Longrightarrow>
   useLogin_login_finish out s =
     (s\<lparr>error := parseApiError (status res) bo, loading := False\<rparr>, [],
      Login_failed (parseApiError (status res) bo))"
  by (simp add: useLogin_login_finish_def)

lemma remove_not_ok:
  "out = Resolved res \<Longrightarrow> read_body res = Inr b \<Longrightarrow> \<not> res_ok res \<Longrightarrow>
   snd (remove_settle what ident x out s) =
     \<lparr>ok = False,
      msg = or_else (message_of b)
              (''Gagal menghapus '' @ what @ '' ('' @ String_of (int (status res)) @ '').'')\<rparr>"
  by (simp add: remove_settle_def)

lemma load_failed_message:
  "isl (fetchWithAuth out) \<Longrightarrow> abortRef s = Some c \<Longrightarrow> c \<notin> aborted s \<Longrightarrow>
   error (list_load_finish failed c out s) = failed"
  by (auto simp: list_load_finish_def finally_loading_def split: sum.splits)

lemma or_else_present: "x = Some m \<Longrightarrow> m \<noteq> [] \<Longrightarrow> or_else x d = m"
  by (simp add: or_else_def)

text \<open>
  C3, as stated, fails for \<open>load\<close>: a 500 response whose JSON body has the message
  "Database is down" makes \<open>fetchWithAuth\<close> throw an Error with that message, and the
  error that \<open>load\<close> sets is its own fixed text.
\<close>

theorem load_drops_server_message:
  "fetchWithAuth (json_response 500 \<lparr>success = Some False, message = Some ''Database is down'',
                                     ApiBody.data = None :: ProjectItem list option, meta = None\<rparr>)
     = Inl (Error ''Database is down'')
   \<and> error (useProjects_load_finish 0
        (json_response 500 \<lparr>success = Some False, message = Some ''Database is down'',
                             ApiBody.data = None, meta = None\<rparr>)
        (in_flight 0))
     = ''Gagal memuat projects. Coba lagi.''
   \<and> error (useProjects_load_finish 0
        (json_response 500 \<lparr>success = Some False, message = Some ''Database is down'',
                             ApiBody.data = None, meta = None\<rparr>)
        (in_flight 0))
     \<noteq> ''Database is down''"
  by (simp add: fetchWithAuth_def json_response_def read_body_def res_ok_def message_of_def
      or_else_def useProjects_load_finish_def list_load_finish_def finally_loading_def
      in_flight_def)

text \<open>
  C3, amended. For a response outside 2xx whose body could be read: \<open>fetchWithAuth\<close>
  throws an Error with the message of the server when the body has a non-empty one, and
  with "Request failed: " and the status otherwise; \<open>login\<close> (through
  \<open>parseApiError\<close>) and \<open>remove\<close> report the message of the server when the body has a
  non-empty one, and a generic text otherwise. \<open>load\<close> of the list hooks does not pass
  the message on: when its request is the current one and fails, for whatever reason,
  the error it sets is its own fixed text.
\<close>

theorem server_message_where_surfaced:
  "(out = Resolved res \<and> read_body res = Inr b \<and> \<not> res_ok res \<longrightarrow>
      fetchWithAuth out =
        Inl (Error (or_else (message_of b) (''Request failed: '' @ String_of (int (status res)))))
      \<and> snd (remove_settle what ident x out s) =
          \<lparr>ok = False,
           msg = or_else (message_of b)
                   (''Gagal menghapus '' @ what @ '' ('' @ String_of (int (status res)) @ '').'')\<rparr>)
   \<and> (message_of b = Some m \<and> m \<noteq> [] \<longrightarrow> or_else (message_of b) d = m)
   \<and> (message_of b \<in> {None, Some []} \<longrightarrow> or_else (message_of b) d = d)
   \<and> (lout = Resolved lres \<and> read_body lres = Inr lb \<and> \<not> res_ok lres \<longrightarrow>
      useLogin_login_finish lout ls =
        (ls\<lparr>error := parseApiError (status lres) lb, loading := False\<rparr>, [],
         Login_failed (parseApiError (status lres) lb)))
   \<and> (err_message eb = Some m \<and> m \<noteq> [] \<longrightarrow> parseApiError st (Some eb) = m)
   \<and> ((case lb of None \<Rightarrow> None | Some e \<Rightarrow> err_message e) \<in> {None, Some []} \<longrightarrow>
      parseApiError st lb =
        (if st = 0 then ''Tidak dapat terhubung ke server. Coba lagi.''
         else if st \<ge> 500 then ''Terjadi kesalahan pada server. Coba beberapa saat lagi.''
         else ''Email atau kata sandi salah.''))
   \<and> (isl (fetchWithAuth pout) \<and> abortRef ps = Some c \<and> c \<notin> aborted ps \<longrightarrow>
      error (list_load_finish failed c pout ps) = failed)"
proof (intro conjI impI)
  assume "message_of b \<in> {None, Some []}"
  then show "or_else (message_of b) d = d"
    by (auto simp: or_else_def)
qed (simp_all add: fetchWithAuth_not_ok remove_not_ok or_else_present login_not_ok
      parseApiError_message parseApiError_fallback load_failed_message)

theorem server_message_where_surfaced_witness:
  "snd (remove_settle ''project'' project_id ''p9'' (json_response 404 (error_body ''Project not found''))
          example_projects)
     = \<lparr>ok = False, msg = ''Project not found''\<rparr>
   \<and> snd (snd (useLogin_login_finish (json_response 401 (login_error_body ''Invalid credentials''))
                 (in_flight 0)))
     = Login_failed ''Invalid credentials''
   \<and> error (list_load_finish ''Gagal memuat projects. Coba lagi.'' 0
               (json_response 500 (error_body ''Database is down'')) (in_flight 0))
     = ''Gagal memuat projects. Coba lagi.''"
proof -
  let ?res = "\<lparr>status = 404, isJson = True, json = Parsed (Some (error_body ''Project not found''))\<rparr>"
  let ?lres = "\<lparr>status = 401, isJson = True,
                 json = Parsed (Some (login_error_body ''Invalid credentials''))\<rparr>"
  note at_example =
    server_message_where_surfaced [where out = "json_response 404 (error_body ''Project not found'')"
      and res = ?res and b = "Some (error_body ''Project not found'')"
      and what = "''project''" and ident = project_id and x = "''p9''" and s = example_projects
      and m = "''Project not found''" and d = "''Gagal menghapus project (404).''"
      and lout = "json_response 401 (login_error_body ''Invalid credentials'')"
      and lres = ?lres and lb = "Some (login_error_body ''Invalid credentials'')"
      and ls = "in_flight 0"
      and eb = "\<lparr>err_message = Some ''Project not found'', err_error = None, statusCode = None\<rparr>"
      and st = 401
      and pout = "json_response 500 (error_body ''Database is down'')"
      and ps = "in_flight 0" and c = 0 and failed = "''Gagal memuat projects. Coba lagi.''"]
  have not_found: "json_response 404 (error_body ''Project not found'') = Resolved ?res
      \<and> read_body ?res = Inr (Some (error_body ''Project not found'')) \<and> \<not> res_ok ?res"
    by (simp add: json_response_def read_body_def res_ok_def)
  have present: "message_of (Some (error_body ''Project not found'')) = Some ''Project not found''
      \<and> ''Project not found'' \<noteq> []"
    by (simp add: message_of_def error_body_def)
  have unauthorized: "json_response 401 (login_error_body ''Invalid credentials'') = Resolved ?lres
      \<and> read_body ?lres = Inr (Some (login_error_body ''Invalid credentials''))
      \<and> \<not> res_ok ?lres"
    by (simp add: json_response_def read_body_def res_ok_def)
  have current: "isl (fetchWithAuth (json_response 500 (error_body ''Database is down'')))
      \<and> abortRef (in_flight 0 :: unit ApiBody hook) = Some 0
      \<and> 0 \<notin> aborted (in_flight 0 :: unit ApiBody hook)"
    by (simp add: fetchWithAuth_def json_response_def read_body_def res_ok_def in_flight_def)
  have "snd (remove_settle ''project'' project_id ''p9''
               (json_response 404 (error_body ''Project not found'')) example_projects)
          = \<lparr>ok = False,
             msg = or_else (message_of (Some (error_body ''Project not found'')))
                     (''Gagal menghapus '' @ ''project'' @ '' ('' @ String_of (int (status ?res))
                      @ '').'')\<rparr>"
    using at_example not_found by blast
  moreover have "or_else (message_of (Some (error_body ''Project not found'')))
                     (''Gagal menghapus '' @ ''project'' @ '' ('' @ String_of (int (status ?res))
                      @ '').'') = ''Project not found''"
    by (simp add: or_else_def message_of_def error_body_def)
  moreover have "useLogin_login_finish (json_response 401 (login_error_body ''Invalid credentials''))
        (in_flight 0)
      = ((in_flight 0)\<lparr>error := parseApiError (status ?lres)
                                   (Some (login_error_body ''Invalid credentials'')),
                        loading := False\<rparr>, [],
         Login_failed (parseApiError (status ?lres)
                         (Some (login_error_body ''Invalid credentials''))))"
    using at_example unauthorized by blast
  moreover have "parseApiError (status ?lres) (Some (login_error_body ''Invalid credentials''))
      = ''Invalid credentials''"
    by (simp add: parseApiError_def login_error_body_def)
  moreover have "error (list_load_finish ''Gagal memuat projects. Coba lagi.'' 0
               (json_response 500 (error_body ''Database is down''))
               (in_flight 0 :: unit ApiBody hook))
     = ''Gagal memuat projects. Coba lagi.''"
    using at_example current by blast
  ultimately show ?thesis
    by simp
qed

section \<open>The bearer token\<close>

lemma authorization_fetchWithAuth:
  "authorization (fetchWithAuth_request u t) = Some (''Bearer '' @ t)"
  by (simp add: authorization_def fetchWithAuth_request_def)

lemma authorization_delete: "authorization (delete_request u t) = Some (''Bearer '' @ t)"
  by (simp add: authorization_def delete_request_def)

lemma session_token: "\<not> no_session API_HOST token \<Longrightarrow> token = Some (or_else token [])"
  by (auto simp: no_session_def or_else_def split: option.splits if_splits)

lemma useProjects_load_no_session:
  "no_session API_HOST token \<Longrightarrow>
   useProjects_load_start API_HOST token q s =
     (s\<lparr>loading := False, error := SESSION_INVALID, data := None\<rparr>, None)"
  by (simp add: useProjects_load_start_def)

lemma useProjects_load_session:
  "\<not> no_session API_HOST token \<Longrightarrow>
   \<exists>c r. snd (useProjects_load_start API_HOST token q s) = Some (c, r)
     \<and> authorization r = Some (''Bearer '' @ or_else token [])"
  by (simp add: useProjects_load_start_def new_controller_def authorization_fetchWithAuth Let_def)

lemma useWorklogs_load_no_session:
  "or_else pid [] \<noteq> [] \<Longrightarrow> no_session API_HOST token \<Longrightarrow>
   useWorklogs_load_start API_HOST token pid wq s =
     (s\<lparr>loading := False, error := SESSION_INVALID, data := None\<rparr>, None)"
  by (simp add: useWorklogs_load_start_def)

lemma useWorklogs_load_session:
  "or_else pid [] \<noteq> [] \<Longrightarrow> \<not> no_session API_HOST token \<Longrightarrow>
   \<exists>c r. snd (useWorklogs_load_start API_HOST token pid wq s) = Some (c, r)
     \<and> authorization r = Some (''Bearer '' @ or_else token [])"
  by (simp add: useWorklogs_load_start_def new_controller_def authorization_fetchWithAuth Let_def)

lemma useWorklogs_load_no_project:
  "or_else pid [] = [] \<Longrightarrow> snd (useWorklogs_load_start API_HOST token pid wq s) = None"
  by (simp add: useWorklogs_load_start_def)

lemma useProjects_remove_no_session:
  "no_session API_HOST token \<Longrightarrow>
   useProjects_remove API_HOST token x out s =
     (s\<lparr>error := SESSION_INVALID\<rparr>, [], \<lparr>ok = False, msg = SESSION_INVALID\<rparr>)"
  by (simp add: useProjects_remove_def)

lemma useProjects_remove_requests:
  "r \<in> set (fst (snd (useProjects_remove API_HOST token x out s))) \<Longrightarrow>
   authorization r = Some (''Bearer '' @ or_else token [])"
  by (auto simp: useProjects_remove_def authorization_delete split: if_splits prod.splits)

lemma useWorklogs_remove_no_session:
  "or_else pid [] \<noteq> [] \<Longrightarrow> no_session API_HOST token \<Longrightarrow>
   useWorklogs_remove API_HOST token pid x out s =
     (s\<lparr>error := SESSION_INVALID\<rparr>, [], \<lparr>ok = False, msg = SESSION_INVALID\<rparr>)"
  by (simp add: useWorklogs_remove_def)

lemma useWorklogs_remove_requests:
  "r \<in> set (fst (snd (useWorklogs_remove API_HOST token pid x out s))) \<Longrightarrow>
   authorization r = Some (''Bearer '' @ or_else token [])"
  by (auto simp: useWorklogs_remove_def authorization_delete split: if_splits prod.splits)

lemma useDashboardData_load_no_session:
  "no_session API_HOST token \<Longrightarrow>
   useDashboardData_load_start API_HOST token s =
     (s\<lparr>loading := False, error := SESSION_INVALID, data := None\<rparr>, None)"
  by (simp add: useDashboardData_load_start_def)

lemma useDashboardData_load_session:
  "\<not> no_session API_HOST token \<Longrightarrow>
   \<exists>c rs. snd (useDashboardData_load_start API_HOST token s) = Some (c, rs)
     \<and> (\<forall>r \<in> set rs. authorization r = Some (''Bearer '' @ or_else token []))"
  by (simp add: useDashboardData_load_start_def new_controller_def authorization_fetchWithAuth
      Let_def)

lemma worklog_requests_authorized:
  "r \<in> set (worklog_requests API_HOST token projResp) \<Longrightarrow>
   authorization r = Some (''Bearer '' @ or_else token [])"
  by (auto simp: worklog_requests_def authorization_fetchWithAuth)

text \<open>
  C6, as stated, fails twice. The request of \<open>login\<close> goes to the REST API without an
  Authorization header. And \<open>remove\<close> of the worklogs hook, called without a project
  id and without the cookie, fails with the text for the project id, not with the text
  for the session.
\<close>

theorem request_without_bearer_token:
  "snd (useLogin_login_start (Some ''https://api.test'')
          \<lparr>email = '' dev@devlog.test'', password = ''secret''\<rparr> mounted)
     = Some (0, \<lparr>http_method = ''POST'', url = ''https://api.test/auth/login'',
                 headers = [(''Content-Type'', ''application/json'')],
                 payload = [(''email'', ''dev@devlog.test''), (''password'', ''secret'')]\<rparr>)
   \<and> authorization \<lparr>http_method = ''POST'', url = ''https://api.test/auth/login'',
                     headers = [(''Content-Type'', ''application/json'')],
                     payload = [(''email'', ''dev@devlog.test''), (''password'', ''secret'')]\<rparr>
     = None
   \<and> snd (snd (useWorklogs_remove (Some ''https://api.test'') None None ''w1''
                 (Rejected :: unit ApiBody fetch_outcome) mounted))
     = \<lparr>ok = False, msg = ''ID project tidak valid.''\<rparr>
   \<and> ''ID project tidak valid.'' \<noteq> SESSION_INVALID"
  by (simp add: useLogin_login_start_def or_else_def new_controller_def abort_current_def
      mounted_def template_def trim_def is_space_def authorization_def useWorklogs_remove_def
      SESSION_INVALID_def)

text \<open>
  C6, amended. Every request that the projects hook, the worklogs hook and the dashboard
  hook send (\<open>load\<close>, \<open>remove\<close>, and the fetches of worklogs of the dashboard)
  carries the header Authorization with "Bearer " and the token read from the
  access_token cookie. When the cookie is missing or empty, or the API host is not
  configured, \<open>load\<close> and \<open>remove\<close> send no request and fail with the text of the
  invalid session; in the worklogs hook this holds when the project id is present, and
  without a project id no request is sent either.
\<close>

theorem cookie_hooks_send_bearer_token:
  "(no_session API_HOST token \<longrightarrow>
      useProjects_load_start API_HOST token q s =
        (s\<lparr>loading := False, error := SESSION_INVALID, data := None\<rparr>, None)
      \<and> useProjects_remove API_HOST token x out sp =
        (sp\<lparr>error := SESSION_INVALID\<rparr>, [], \<lparr>ok = False, msg = SESSION_INVALID\<rparr>)
      \<and> useDashboardData_load_start API_HOST token sd =
        (sd\<lparr>loading := False, error := SESSION_INVALID, data := None\<rparr>, None))
   \<and> (no_session API_HOST token \<and> or_else pid [] \<noteq> [] \<longrightarrow>
      useWorklogs_load_start API_HOST token pid wq s =
        (s\<lparr>loading := False, error := SESSION_INVALID, data := None\<rparr>, None)
      \<and> useWorklogs_remove API_HOST token pid x out sw =
        (sw\<lparr>error := SESSION_INVALID\<rparr>, [], \<lparr>ok = False, msg = SESSION_INVALID\<rparr>))
   \<and> (or_else pid [] = [] \<longrightarrow>
      snd (useWorklogs_load_start API_HOST token pid wq s) = None
      \<and> fst (snd (useWorklogs_remove API_HOST token pid x out sw)) = [])
   \<and> (\<not> no_session API_HOST token \<longrightarrow>
      token = Some (or_else token [])
      \<and> (\<exists>c r. snd (useProjects_load_start API_HOST token q s) = Some (c, r)
            \<and> authorization r = Some (''Bearer '' @ or_else token []))
      \<and> (\<exists>c rs. snd (useDashboardData_load_start API_HOST token sd) = Some (c, rs)
            \<and> (\<forall>r \<in> set rs. authorization r = Some (''Bearer '' @ or_else token []))))
   \<and> (\<not> no_session API_HOST token \<and> or_else pid [] \<noteq> [] \<longrightarrow>
      (\<exists>c r. snd (useWorklogs_load_start API_HOST token pid wq s) = Some (c, r)
            \<and> authorization r = Some (''Bearer '' @ or_else token [])))
   \<and> (\<forall>r \<in> set (fst (snd (useProjects_remove API_HOST token x out sp))).
        authorization r = Some (''Bearer '' @ or_else token []))
   \<and> (\<forall>r \<in> set (fst (snd (useWorklogs_remove API_HOST token pid x out sw))).
        authorization r = Some (''Bearer '' @ or_else token []))
   \<and> (\<forall>r \<in> set (worklog_requests API_HOST token projResp).
        authorization r = Some (''Bearer '' @ or_else token []))"
proof (intro conjI impI ballI)
  assume "\<not> no_session API_HOST token"
  then show "token = Some (or_else token [])"
    by (rule session_token)
next
  assume "or_else pid [] = []"
  then show "fst (snd (useWorklogs_remove API_HOST token pid x out sw)) = []"
    by (simp add: useWorklogs_remove_def)
next
  assume "\<not> no_session API_HOST token"
  then show "\<exists>c r. snd (useProjects_load_start API_HOST token q s) = Some (c, r)
            \<and> authorization r = Some (''Bearer '' @ or_else token [])"
    by (rule useProjects_load_session)
next
  assume "\<not> no_session API_HOST token"
  then show "\<exists>c rs. snd (useDashboardData_load_start API_HOST token sd) = Some (c, rs)
            \<and> (\<forall>r \<in> set rs. authorization r = Some (''Bearer '' @ or_else token []))"
    by (rule useDashboardData_load_session)
next
  assume "\<not> no_session API_HOST token \<and> or_else pid [] \<noteq> []"
  then show "\<exists>c r. snd (useWorklogs_load_start API_HOST token pid wq s) = Some (c, r)
            \<and> authorization r = Some (''Bearer '' @ or_else token [])"
    using useWorklogs_load_session [of pid API_HOST token wq s] by blast
next
  fix r
  assume "r \<in> set (fst (snd (useProjects_remove API_HOST token x out sp)))"
  then show "authorization r = Some (''Bearer '' @ or_else token [])"
    by (rule useProjects_remove_requests)
next
  fix r
  assume "r \<in> set (fst (snd (useWorklogs_remove API_HOST token pid x out sw)))"
  then show "authorization r = Some (''Bearer '' @ or_else token [])"
    by (rule useWorklogs_remove_requests)
next
  fix r
  assume "r \<in> set (worklog_requests API_HOST token projResp)"
  then show "authorization r = Some (''Bearer '' @ or_else token [])"
    by (rule worklog_requests_authorized)
qed (simp_all add: useProjects_load_no_session useProjects_remove_no_session
      useDashboardData_load_no_session useWorklogs_load_no_session useWorklogs_remove_no_session
      useWorklogs_load_no_project useProjects_load_session useDashboardData_load_session
      useWorklogs_load_session useProjects_remove_requests useWorklogs_remove_requests
      worklog_requests_authorized)

theorem cookie_hooks_send_bearer_token_witness:
  "map_option (\<lambda>cr. authorization (snd cr))
     (snd (useProjects_load_start (Some ''https://api.test'') (Some ''t0k'')
        \<lparr>query_search = None, query_status = Some Filter_ALL, query_page = Some 1,
          query_limit = Some 10\<rparr> (mounted :: ProjectsResponse hook)))
     = Some (Some ''Bearer t0k'')
   \<and> useProjects_load_start (Some ''https://api.test'') None
        \<lparr>query_search = None, query_status = Some Filter_ALL, query_page = Some 1,
          query_limit = Some 10\<rparr> (mounted :: ProjectsResponse hook)
     = (mounted\<lparr>loading := False, error := ''Sesi tidak valid. Silakan login kembali.'',
                data := None\<rparr>, None)
   \<and> useWorklogs_remove None (Some ''t0k'') (Some ''p1'') ''w1''
        (Rejected :: unit ApiBody fetch_outcome) mounted
     = (mounted\<lparr>error := ''Sesi tidak valid. Silakan login kembali.''\<rparr>, [],
        \<lparr>ok = False, msg = ''Sesi tidak valid. Silakan login kembali.''\<rparr>)"
proof -
  let ?q = "\<lparr>query_search = None, query_status = Some Filter_ALL, query_page = Some 1,
             query_limit = Some 10\<rparr>"
  let ?wq = "\<lparr>fromDate = None, toDate = None, query_activityType = None,
              wquery_page = Some 1, wquery_limit = Some 10\<rparr>"
  note at_example =
    cookie_hooks_send_bearer_token [where q = ?q and s = "mounted :: ProjectsResponse hook"
      and x = "''w1''" and out = "Rejected :: unit ApiBody fetch_outcome" and sp = mounted
      and sd = "mounted :: unit hook" and pid = "Some ''p1''" and wq = ?wq and sw = mounted
      and projResp = None]
  have session: "\<not> no_session (Some ''https://api.test'') (Some ''t0k'')"
    and no_cookie: "no_session (Some ''https://api.test'') None"
    and no_host: "no_session None (Some ''t0k'')"
    and project: "or_else (Some ''p1'') [] \<noteq> []"
    by (simp_all add: no_session_def or_else_def)
  from session at_example [where API_HOST = "Some ''https://api.test''" and token = "Some ''t0k''"]
  have "\<exists>c r. snd (useProjects_load_start (Some ''https://api.test'') (Some ''t0k'') ?q
                     (mounted :: ProjectsResponse hook)) = Some (c, r)
          \<and> authorization r = Some (''Bearer '' @ or_else (Some ''t0k'') [])"
    by blast
  then have first: "map_option (\<lambda>cr. authorization (snd cr))
     (snd (useProjects_load_start (Some ''https://api.test'') (Some ''t0k'') ?q
        (mounted :: ProjectsResponse hook))) = Some (Some ''Bearer t0k'')"
    by (auto simp: or_else_def)
  from no_cookie at_example [where API_HOST = "Some ''https://api.test''" and token = None]
  have second: "useProjects_load_start (Some ''https://api.test'') None ?q
        (mounted :: ProjectsResponse hook)
     = (mounted\<lparr>loading := False, error := SESSION_INVALID, data := None\<rparr>, None)"
    by blast
  from no_host project at_example [where API_HOST = None and token = "Some ''t0k''"]
  have third: "useWorklogs_remove None (Some ''t0k'') (Some ''p1'') ''w1''
        (Rejected :: unit ApiBody fetch_outcome) mounted
     = (mounted\<lparr>error := SESSION_INVALID\<rparr>, [], \<lparr>ok = False, msg = SESSION_INVALID\<rparr>)"
    by blast
  from first second third show ?thesis
    by (simp add: SESSION_INVALID_def)
qed

section \<open>Properties of the dashboard hook\<close>

lemma set_insert_by: "set (insert_by cmp x ys) = insert x (set ys)"
  by (induction ys) auto

lemma set_js_sort: "set (js_sort cmp xs) = set xs"
  by (induction xs) (simp_all add: js_sort_def set_insert_by)

lemma filter_insert_by:
  "length (filter P (insert_by cmp x ys)) = length (filter P (x # ys))"
  by (induction ys) auto

lemma length_filter_js_sort: "length (filter P (js_sort cmp xs)) = length (filter P xs)"
proof (induction xs)
  case Nil
  show ?case by (simp add: js_sort_def)
next
  case (Cons x xs)
  have "js_sort cmp (x # xs) = insert_by cmp x (js_sort cmp xs)"
    by (simp add: js_sort_def)
  with Cons show ?case
    by (simp add: filter_insert_by)
qed

lemma sorted_insert_by:
  assumes "\<forall>w \<in> set (x # ys). getTime (createdAt w) \<noteq> None"
    and "sorted_wrt (not_older getTime) ys"
  shows "sorted_wrt (not_older getTime) (insert_by (by_createdAt getTime) x ys)"
  using assms
proof (induction ys)
  case Nil
  show ?case by simp
next
  case (Cons y ys)
  from Cons.prems obtain tx ty where tx: "getTime (createdAt x) = Some tx"
    and ty: "getTime (createdAt y) = Some ty"
    by auto
  show ?case
  proof (cases "by_createdAt getTime x y \<le> 0")
    case True
    with tx ty have "ty \<le> tx"
      by (simp add: by_createdAt_def)
    with tx ty Cons.prems have "\<forall>z \<in> set (y # ys). not_older getTime x z"
      by (fastforce simp: not_older_def split: option.splits)
    with True Cons.prems show ?thesis
      by simp
  next
    case False
    with tx ty have "tx \<le> ty"
      by (simp add: by_createdAt_def)
    with tx ty have "not_older getTime y x"
      by (simp add: not_older_def)
    moreover from Cons have "sorted_wrt (not_older getTime) (insert_by (by_createdAt getTime) x ys)"
      by simp
    ultimately show ?thesis
      using False Cons.prems by (simp add: set_insert_by)
  qed
qed

lemma sorted_js_sort:
  "\<forall>w \<in> set xs. getTime (createdAt w) \<noteq> None \<Longrightarrow>
   sorted_wrt (not_older getTime) (js_sort (by_createdAt getTime) xs)"
proof (induction xs)
  case Nil
  show ?case by (simp add: js_sort_def)
next
  case (Cons x xs)
  have step: "js_sort (by_createdAt getTime) (x # xs) =
      insert_by (by_createdAt getTime) x (js_sort (by_createdAt getTime) xs)"
    by (simp add: js_sort_def)
  from Cons have "sorted_wrt (not_older getTime) (js_sort (by_createdAt getTime) xs)"
    by simp
  moreover from Cons.prems
  have "\<forall>w \<in> set (x # js_sort (by_createdAt getTime) xs). getTime (createdAt w) \<noteq> None"
    by (simp add: set_js_sort)
  ultimately show ?case
    unfolding step by (rule sorted_insert_by [rotated])
qed

lemma sorted_wrt_take: "sorted_wrt R xs \<Longrightarrow> sorted_wrt R (take n xs)"
proof (induction xs arbitrary: n)
  case Nil
  show ?case by simp
next
  case (Cons x xs)
  show ?case
  proof (cases n)
    case 0
    then show ?thesis by simp
  next
    case (Suc k)
    with Cons show ?thesis
      by (auto dest: in_set_takeD)
  qed
qed

lemma worklogs_of_failed: "isl (fetchWithAuth out) \<Longrightarrow> worklogs_of p out = []"
  by (auto simp: worklogs_of_def split: sum.splits)

lemma worklogs_of_no_worklogs: "worklogs_of p no_worklogs = []"
  by (simp add: worklogs_of_def no_worklogs_def json_response_def fetchWithAuth_def read_body_def
      res_ok_def data_or_empty_def)

lemma in_worklogs_of:
  "x \<in> set (worklogs_of p out) \<Longrightarrow>
   \<exists>resp it. fetchWithAuth out = Inr resp \<and> it \<in> set (data_or_empty resp)
     \<and> x = it\<lparr>projectId := Some (project_id p)\<rparr>"
  by (cases "fetchWithAuth out") (auto simp: worklogs_of_def)

lemma in_worklogLists:
  "x \<in> set (concat (worklogLists ps wl)) \<Longrightarrow>
   \<exists>i < length ps. \<exists>resp it. fetchWithAuth (wl i) = Inr resp \<and> it \<in> set (data_or_empty resp)
     \<and> x = it\<lparr>projectId := Some (project_id (ps ! i))\<rparr>"
proof -
  assume "x \<in> set (concat (worklogLists ps wl))"
  then obtain i p where ip: "(i, p) \<in> set (enumerate 0 ps)" and x: "x \<in> set (worklogs_of p (wl i))"
    by (auto simp: worklogLists_def)
  from ip have "i < length ps" and "p = ps ! i"
    by (simp_all add: in_set_enumerate_eq)
  with in_worklogs_of [OF x] show ?thesis
    by blast
qed

lemma recentWorklogs_eq:
  "recentWorklogs (dashboard_data getTime weekAgo meResp projResp wl) =
     take 5 (js_sort (by_createdAt getTime) (concat (worklogLists (data_or_empty projResp) wl)))"
  by (simp add: dashboard_data_def Let_def)

lemma worklogsThisWeek_eq:
  "worklogsThisWeek (totals (dashboard_data getTime weekAgo meResp projResp wl)) =
     length (filter (this_week getTime weekAgo) (concat (worklogLists (data_or_empty projResp) wl)))"
  by (simp add: dashboard_data_def Let_def length_filter_js_sort)

lemma load_finish_data:
  "data (useDashboardData_load_finish getTime weekAgo me_out proj_out wl s) = Some d \<Longrightarrow>
   \<exists>meResp projResp. fetchWithAuth me_out = Inr meResp \<and> fetchWithAuth proj_out = Inr projResp
     \<and> d = dashboard_data getTime weekAgo meResp projResp wl"
  by (auto simp: useDashboardData_load_finish_def split: sum.splits)

lemma load_finish_ok:
  "fetchWithAuth me_out = Inr meResp \<Longrightarrow> fetchWithAuth proj_out = Inr projResp \<Longrightarrow>
   useDashboardData_load_finish getTime weekAgo me_out proj_out wl s =
     s\<lparr>data := Some (dashboard_data getTime weekAgo meResp projResp wl), loading := False\<rparr>"
  by (simp add: useDashboardData_load_finish_def)

lemma worklogLists_cong:
  "(\<And>i p. worklogs_of p (wl i) = worklogs_of p (wl' i)) \<Longrightarrow>
   worklogLists ps wl = worklogLists ps wl'"
  by (simp add: worklogLists_def)

lemma dashboard_data_cong:
  "worklogLists (data_or_empty projResp) wl = worklogLists (data_or_empty projResp) wl' \<Longrightarrow>
   dashboard_data getTime weekAgo meResp projResp wl =
   dashboard_data getTime weekAgo meResp projResp wl'"
  by (simp add: dashboard_data_def)

lemma failed_as_no_worklogs:
  assumes "\<forall>i \<in> F. isl (fetchWithAuth (wl i))"
  shows "dashboard_data getTime weekAgo meResp projResp wl =
         dashboard_data getTime weekAgo meResp projResp (\<lambda>i. if i \<in> F then no_worklogs else wl i)"
proof (rule dashboard_data_cong, rule worklogLists_cong)
  fix i p
  show "worklogs_of p (wl i) = worklogs_of p (if i \<in> F then no_worklogs else wl i)"
    using assms by (simp add: worklogs_of_failed worklogs_of_no_worklogs)
qed

lemma load_start_error:
  "\<not> no_session API_HOST token \<Longrightarrow> error (fst (useDashboardData_load_start API_HOST token s)) = []"
  by (simp add: useDashboardData_load_start_def new_controller_def abort_current_def Let_def
      split: option.splits)

text \<open>
  C4. A fetch of worklogs that fails, for any set of projects of the first page, counts
  as a successful fetch without worklogs: the dashboard data is the same. When the two
  first fetches succeed, \<open>load\<close> stores that data, ends the loading and leaves the
  error as it is, which is the empty text that the start of \<open>load\<close> has set.
\<close>

theorem failed_worklog_fetch_counts_as_empty:
  "((\<forall>i \<in> F. isl (fetchWithAuth (wl i))) \<longrightarrow>
      dashboard_data getTime weekAgo meResp projResp wl =
      dashboard_data getTime weekAgo meResp projResp (\<lambda>i. if i \<in> F then no_worklogs else wl i))
   \<and> (fetchWithAuth me_out = Inr meResp \<and> fetchWithAuth proj_out = Inr projResp \<longrightarrow>
      useDashboardData_load_finish getTime weekAgo me_out proj_out wl s =
        s\<lparr>data := Some (dashboard_data getTime weekAgo meResp projResp wl), loading := False\<rparr>)
   \<and> (\<not> no_session API_HOST token \<longrightarrow>
      error (fst (useDashboardData_load_start API_HOST token s)) = [])"
  using failed_as_no_worklogs [of F wl getTime weekAgo meResp projResp]
    load_finish_ok [of me_out meResp proj_out projResp getTime weekAgo wl s]
    load_start_error [of API_HOST token s]
  by blast

theorem failed_worklog_fetch_counts_as_empty_witness:
  "dashboard_data day_of 3 (None :: unit ApiBody option) (Some example_page) example_fetches =
   dashboard_data day_of 3 None (Some example_page) (\<lambda>i. if i \<in> {1} then no_worklogs else example_fetches i)
   \<and> map worklog_id
        (recentWorklogs (dashboard_data day_of 3 (None :: unit ApiBody option) (Some example_page)
                           example_fetches))
     = [''w7'', ''w2'', ''w5'', ''w3'', ''w6'']
   \<and> useDashboardData_load_finish day_of 3 (plain_response 200 :: unit ApiBody fetch_outcome)
        (json_response 200 example_page) example_fetches (in_flight 0)
     = (in_flight 0)\<lparr>data := Some (dashboard_data day_of 3 None (Some example_page) example_fetches),
                      loading := False\<rparr>"
proof -
  note at_example =
    failed_worklog_fetch_counts_as_empty [where F = "{1}" and wl = example_fetches
      and getTime = day_of and weekAgo = 3 and meResp = "None :: unit ApiBody option"
      and projResp = "Some example_page" and me_out = "plain_response 200"
      and proj_out = "json_response 200 example_page" and s = "in_flight 0"
      and API_HOST = "Some ''https://api.test''" and token = "Some ''t0k''"]
  have rejected: "\<forall>i \<in> {1}. isl (fetchWithAuth (example_fetches i))"
    by (simp add: example_fetches_def fetchWithAuth_def)
  have first_two: "fetchWithAuth (plain_response 200) = Inr (None :: unit ApiBody option)
      \<and> fetchWithAuth (json_response 200 example_page) = Inr (Some example_page)"
    by (simp add: fetchWithAuth_def plain_response_def json_response_def read_body_def res_ok_def)
  have recent: "map worklog_id
        (recentWorklogs (dashboard_data day_of 3 (None :: unit ApiBody option) (Some example_page)
                           example_fetches))
     = [''w7'', ''w2'', ''w5'', ''w3'', ''w6'']"
    by code_simp
  from at_example rejected first_two recent show ?thesis
    by blast
qed

text \<open>
  C9, as stated, fails twice. With a createdAt that is not a valid date among the
  fetched worklogs, recentWorklogs is not sorted: the worklog of 1 March stays before
  the one of 2 March. And the hook does not cut the responses down: of a first page of
  seven projects all seven are fetched and used, so recentWorklogs holds a worklog of the
  seventh project.
\<close>

theorem recent_worklogs_unsorted_or_beyond_five:
  "map (\<lambda>w. (worklog_id w, createdAt w))
     (recentWorklogs (dashboard_data day_of 3 (None :: unit ApiBody option)
                        (Some one_project_page) bad_date_fetches))
     = [(''a'', ''2025-03-01''), (''x'', ''bad''), (''b'', ''2025-03-02'')]
   \<and> day_of ''2025-03-01'' = Some 1 \<and> day_of ''bad'' = None \<and> day_of ''2025-03-02'' = Some 2
   \<and> \<not> sorted_wrt (not_older day_of)
        (recentWorklogs (dashboard_data day_of 3 (None :: unit ApiBody option)
                           (Some one_project_page) bad_date_fetches))
   \<and> length (data_or_empty (Some seven_projects_page)) = 7
   \<and> length (worklog_requests (Some ''https://api.test'') (Some ''t0k'') (Some seven_projects_page))
     = 7
   \<and> map (\<lambda>w. (worklog_id w, projectId w))
        (recentWorklogs (dashboard_data day_of 3 (None :: unit ApiBody option)
                           (Some seven_projects_page) seven_fetches))
     = [(''w7'', Some ''p7''), (''w6'', Some ''p6''), (''w5'', Some ''p5''),
        (''w4'', Some ''p4''), (''w3'', Some ''p3'')]"
  by code_simp

text \<open>
  C9, amended. The data that \<open>load\<close> stores is \<open>dashboard_data\<close> of the responses. Its
  recentWorklogs has at most 5 items; it is sorted from the newest to the oldest createdAt
  whenever the createdAt of every fetched worklog is a valid date; each of its items is a
  worklog returned by the fetch for a project of the first page as the server returned
  it, with the projectId set to the id of that project. \<open>worklogsThisWeek\<close> is the
  number of all fetched worklogs whose logDate is a valid date at or after \<open>weekAgo\<close>.
  The first page is asked for with limit=5, and so are the worklogs of each of its
  projects; the hook does not cut the responses down to that number.
\<close>

theorem dashboard_recent_worklogs:
  "(data (useDashboardData_load_finish getTime weekAgo me_out proj_out wl s) = Some d \<longrightarrow>
      (\<exists>me_body proj_body. fetchWithAuth me_out = Inr me_body \<and> fetchWithAuth proj_out = Inr proj_body
         \<and> d = dashboard_data getTime weekAgo me_body proj_body wl))
   \<and> length (recentWorklogs (dashboard_data getTime weekAgo meResp projResp wl)) \<le> 5
   \<and> ((\<forall>w \<in> set (concat (worklogLists (data_or_empty projResp) wl)). getTime (createdAt w) \<noteq> None) \<longrightarrow>
      sorted_wrt (not_older getTime)
        (recentWorklogs (dashboard_data getTime weekAgo meResp projResp wl)))
   \<and> (\<forall>x \<in> set (recentWorklogs (dashboard_data getTime weekAgo meResp projResp wl)).
        \<exists>i < length (data_or_empty projResp). \<exists>resp it.
          fetchWithAuth (wl i) = Inr resp \<and> it \<in> set (data_or_empty resp)
          \<and> x = it\<lparr>projectId := Some (project_id (data_or_empty projResp ! i))\<rparr>)
   \<and> worklogsThisWeek (totals (dashboard_data getTime weekAgo meResp projResp wl)) =
        length (filter (this_week getTime weekAgo)
                  (concat (worklogLists (data_or_empty projResp) wl)))
   \<and> (\<not> no_session API_HOST token \<longrightarrow>
        map_option (\<lambda>cr. map url (snd cr)) (snd (useDashboardData_load_start API_HOST token s)) =
          Some [template API_HOST @ ''/auth/me'', template API_HOST @ ''/projects?limit=5''])
   \<and> map url (worklog_requests API_HOST token projResp) =
        map (\<lambda>p. template API_HOST @ ''/projects/'' @ project_id p @ ''/worklogs?limit=5'')
          (data_or_empty projResp)"
proof (intro conjI impI ballI)
  assume "data (useDashboardData_load_finish getTime weekAgo me_out proj_out wl s) = Some d"
  then show "\<exists>me_body proj_body. fetchWithAuth me_out = Inr me_body
      \<and> fetchWithAuth proj_out = Inr proj_body
      \<and> d = dashboard_data getTime weekAgo me_body proj_body wl"
    by (rule load_finish_data)
next
  show "length (recentWorklogs (dashboard_data getTime weekAgo meResp projResp wl)) \<le> 5"
    by (simp add: recentWorklogs_eq)
next
  assume "\<forall>w \<in> set (concat (worklogLists (data_or_empty projResp) wl)). getTime (createdAt w) \<noteq> None"
  then show "sorted_wrt (not_older getTime)
      (recentWorklogs (dashboard_data getTime weekAgo meResp projResp wl))"
    unfolding recentWorklogs_eq by (intro sorted_wrt_take sorted_js_sort)
next
  fix x
  assume "x \<in> set (recentWorklogs (dashboard_data getTime weekAgo meResp projResp wl))"
  then have "x \<in> set (concat (worklogLists (data_or_empty projResp) wl))"
    unfolding recentWorklogs_eq by (auto dest: in_set_takeD simp: set_js_sort)
  then show "\<exists>i < length (data_or_empty projResp). \<exists>resp it.
          fetchWithAuth (wl i) = Inr resp \<and> it \<in> set (data_or_empty resp)
          \<and> x = it\<lparr>projectId := Some (project_id (data_or_empty projResp ! i))\<rparr>"
    by (rule in_worklogLists)
next
  show "worklogsThisWeek (totals (dashboard_data getTime weekAgo meResp projResp wl)) =
        length (filter (this_week getTime weekAgo)
                  (concat (worklogLists (data_or_empty projResp) wl)))"
    by (rule worklogsThisWeek_eq)
next
  assume "\<not> no_session API_HOST token"
  then show "map_option (\<lambda>cr. map url (snd cr)) (snd (useDashboardData_load_start API_HOST token s)) =
          Some [template API_HOST @ ''/auth/me'', template API_HOST @ ''/projects?limit=5'']"
    by (simp add: useDashboardData_load_start_def new_controller_def Let_def
        fetchWithAuth_request_def endpoints_me_def endpoints_projects_def)
next
  show "map url (worklog_requests API_HOST token projResp) =
        map (\<lambda>p. template API_HOST @ ''/projects/'' @ project_id p @ ''/worklogs?limit=5'')
          (data_or_empty projResp)"
    by (simp add: worklog_requests_def fetchWithAuth_request_def endpoints_worklogs_def)
qed

theorem dashboard_recent_worklogs_witness:
  "length (recentWorklogs (dashboard_data day_of 3 (None :: unit ApiBody option)
                             (Some example_page) example_fetches)) \<le> 5
   \<and> sorted_wrt (not_older day_of)
        (recentWorklogs (dashboard_data day_of 3 (None :: unit ApiBody option)
                           (Some example_page) example_fetches))
   \<and> map (\<lambda>w. (worklog_id w, createdAt w, projectId w))
        (recentWorklogs (dashboard_data day_of 3 (None :: unit ApiBody option)
                           (Some example_page) example_fetches))
     = [(''w7'', ''2025-03-09'', Some ''p3''), (''w2'', ''2025-03-08'', Some ''p1''),
        (''w5'', ''2025-03-08'', Some ''p3''), (''w3'', ''2025-03-05'', Some ''p1''),
        (''w6'', ''2025-03-03'', Some ''p3'')]
   \<and> worklogsThisWeek (totals (dashboard_data day_of 3 (None :: unit ApiBody option)
                                   (Some example_page) example_fetches)) = 5"
proof -
  note at_example =
    dashboard_recent_worklogs [where getTime = day_of and weekAgo = 3
      and me_out = "plain_response 200" and proj_out = "json_response 200 example_page"
      and wl = example_fetches and s = "in_flight 0"
      and d = "dashboard_data day_of 3 (None :: unit ApiBody option) (Some example_page)
                 example_fetches"
      and meResp = "None :: unit ApiBody option" and projResp = "Some example_page"
      and API_HOST = "Some ''https://api.test''" and token = "Some ''t0k''"]
  have dates: "\<forall>w \<in> set (concat (worklogLists (data_or_empty (Some example_page)) example_fetches)).
      day_of (createdAt w) \<noteq> None"
    by code_simp
  have week: "length (filter (this_week day_of 3)
                  (concat (worklogLists (data_or_empty (Some example_page)) example_fetches))) = 5"
    by code_simp
  have recent: "map (\<lambda>w. (worklog_id w, createdAt w, projectId w))
        (recentWorklogs (dashboard_data day_of 3 (None :: unit ApiBody option)
                           (Some example_page) example_fetches))
     = [(''w7'', ''2025-03-09'', Some ''p3''), (''w2'', ''2025-03-08'', Some ''p1''),
        (''w5'', ''2025-03-08'', Some ''p3''), (''w3'', ''2025-03-05'', Some ''p1''),
        (''w6'', ''2025-03-03'', Some ''p3'')]"
    by code_simp
  from at_example dates
  have "length (recentWorklogs (dashboard_data day_of 3 (None :: unit ApiBody option)
                             (Some example_page) example_fetches)) \<le> 5
   \<and> sorted_wrt (not_older day_of)
        (recentWorklogs (dashboard_data day_of 3 (None :: unit ApiBody option)
                           (Some example_page) example_fetches))
   \<and> worklogsThisWeek (totals (dashboard_data day_of 3 (None :: unit ApiBody option)
                                   (Some example_page) example_fetches)) =
        length (filter (this_week day_of 3)
                  (concat (worklogLists (data_or_empty (Some example_page)) example_fetches)))"
    by blast
  with week recent show ?thesis
    by simp
qed

section \<open>Requests that a newer request has replaced\<close>

text \<open>A new request aborts the request that was in flight and takes its place.\<close>

lemma new_request_aborts_previous:
  "abortRef s = Some c \<Longrightarrow>
   c \<in> aborted (fst (new_controller (abort_current s)))
   \<and> abortRef (fst (new_controller (abort_current s))) = Some (fresh s)
   \<and> snd (new_controller (abort_current s)) = fresh s"
  by (simp add: new_controller_def abort_current_def)

lemma useProjects_load_aborts_previous:
  "\<not> no_session API_HOST token \<Longrightarrow> abortRef s = Some c \<Longrightarrow>
   c \<in> aborted (fst (useProjects_load_start API_HOST token q s))
   \<and> abortRef (fst (useProjects_load_start API_HOST token q s)) = Some (fresh s)"
  by (simp add: useProjects_load_start_def new_controller_def abort_current_def Let_def)

lemma useWorklogs_load_aborts_previous:
  "or_else pid [] \<noteq> [] \<Longrightarrow> \<not> no_session API_HOST token \<Longrightarrow> abortRef s = Some c \<Longrightarrow>
   c \<in> aborted (fst (useWorklogs_load_start API_HOST token pid wq s))
   \<and> abortRef (fst (useWorklogs_load_start API_HOST token pid wq s)) = Some (fresh s)"
  by (simp add: useWorklogs_load_start_def new_controller_def abort_current_def Let_def)

lemma useDashboardData_load_aborts_previous:
  "\<not> no_session API_HOST token \<Longrightarrow> abortRef s = Some c \<Longrightarrow>
   c \<in> aborted (fst (useDashboardData_load_start API_HOST token s))
   \<and> abortRef (fst (useDashboardData_load_start API_HOST token s)) = Some (fresh s)"
  by (simp add: useDashboardData_load_start_def new_controller_def abort_current_def Let_def)

text \<open>
  In the list hooks, the end of a request that is no longer the current one changes
  nothing, whatever its outcome.
\<close>

lemma list_load_finish_stale:
  "abortRef s \<noteq> Some c \<Longrightarrow> list_load_finish failed c out s = s"
  by (simp add: list_load_finish_def finally_loading_def split: sum.splits)

lemma useProjects_load_finish_stale:
  "abortRef s \<noteq> Some c \<Longrightarrow> useProjects_load_finish c out s = s"
  by (simp add: useProjects_load_finish_def list_load_finish_stale)

lemma useWorklogs_load_finish_stale:
  "abortRef s \<noteq> Some c \<Longrightarrow> useWorklogs_load_finish c out s = s"
  by (simp add: useWorklogs_load_finish_def list_load_finish_stale)

lemma projects_reloaded_stale:
  "abortRef projects_reloaded = Some 1 \<and> 0 \<in> aborted projects_reloaded
   \<and> useProjects_load_finish 0 Rejected projects_reloaded = projects_reloaded"
proof -
  have "abortRef projects_reloaded = Some 1 \<and> 0 \<in> aborted projects_reloaded"
    by (simp add: projects_reloaded_def useProjects_load_start_def no_session_def or_else_def
        new_controller_def abort_current_def mounted_def Let_def)
  then show ?thesis
    by (simp add: useProjects_load_finish_stale)
qed

text \<open>
  C2 fails in the dashboard hook. \<open>load\<close> is called twice; the second call aborts the
  request of the first and is in flight, loading, without error. The fetches of the first
  request now reject, and its \<open>catch\<close> and \<open>finally\<close> set the error and end the
  loading while the second request is still in flight. When the second request succeeds,
  the data is stored and the error of the first request stays.
\<close>

theorem dashboard_stale_completion_changes_state:
  "abortRef dashboard_reloaded = Some 1 \<and> 0 \<in> aborted dashboard_reloaded
   \<and> loading dashboard_reloaded \<and> error dashboard_reloaded = []
   \<and> \<not> loading (useDashboardData_load_finish day_of 3 Rejected Rejected example_fetches
                   dashboard_reloaded)
   \<and> error (useDashboardData_load_finish day_of 3 Rejected Rejected example_fetches
              dashboard_reloaded)
     = ''Gagal memuat dashboard. Coba lagi.''
   \<and> error (useDashboardData_load_finish day_of 3 (plain_response 200)
              (json_response 200 example_page) example_fetches
              (useDashboardData_load_finish day_of 3 Rejected Rejected example_fetches
                 dashboard_reloaded))
     = ''Gagal memuat dashboard. Coba lagi.''
   \<and> data (useDashboardData_load_finish day_of 3 (plain_response 200)
              (json_response 200 example_page) example_fetches
              (useDashboardData_load_finish day_of 3 Rejected Rejected example_fetches
                 dashboard_reloaded))
     \<noteq> None
   \<and> error (useDashboardData_load_finish day_of 3 (plain_response 200)
              (json_response 200 example_page) example_fetches dashboard_reloaded)
     = []"
  by (simp add: dashboard_reloaded_def useDashboardData_load_start_def no_session_def or_else_def
      new_controller_def abort_current_def mounted_def Let_def useDashboardData_load_finish_def
      fetchWithAuth_def plain_response_def json_response_def read_body_def res_ok_def)

end
